theory Spec2Isabelle
  imports Main "HOL-Library.Sublist" "HOL-Library.AList"
begin

section \<open>Strings\<close>

text \<open>
  The pipeline of \<^verbatim>\<open>src/lib/utils.ts\<close> works on JavaScript strings. A string is modelled
  as a \<^typ>\<open>string\<close>, one \<^typ>\<open>char\<close> per UTF-16 code unit, so the model covers text whose
  code units are below 256 (Latin-1). Within that range the definitions below are what
  the ECMAScript built-ins compute: \<^verbatim>\<open>\d\<close> is the ten ASCII digits, \<^verbatim>\<open>\w\<close> the ASCII
  letters, digits and underscore, and white space (\<^verbatim>\<open>\s\<close>, \<^verbatim>\<open>trim\<close>) is TAB, LF, VT, FF,
  CR, SPACE and NO-BREAK SPACE.
\<close>

definition is_digit :: "char \<Rightarrow> bool" where
  "is_digit c = (c \<in> set ''0123456789'')"

definition is_word :: "char \<Rightarrow> bool" where
  "is_word c = (c \<in> set ''abcdefghijklmnopqrstuvwxyzABCDEFGHIJKLMNOPQRSTUVWXYZ0123456789_'')"

definition is_space :: "char \<Rightarrow> bool" where
  "is_space c =
     (c \<in> set [CHR 0x09, CHR 0x0A, CHR 0x0B, CHR 0x0C, CHR 0x0D, CHR 0x20, CHR 0xA0])"

definition trim :: "string \<Rightarrow> string" where
  "trim s = rev (dropWhile is_space (rev (dropWhile is_space s)))"

text \<open>
  \<^verbatim>\<open>toLowerCase\<close> on Latin-1: the letters A to Z and the accented capitals U+00C0 to
  U+00DE (without the multiplication sign U+00D7) move up by 32, which sets bit 5.
\<close>

definition is_upper :: "char \<Rightarrow> bool" where
  "is_upper c = (let n = (of_char c :: nat) in
     (65 \<le> n \<and> n \<le> 90) \<or> (192 \<le> n \<and> n \<le> 222 \<and> n \<noteq> 215))"

definition lower_char :: "char \<Rightarrow> char" where
  "lower_char c = (if is_upper c
     then (case c of Char b0 b1 b2 b3 b4 b5 b6 b7 \<Rightarrow> Char b0 b1 b2 b3 b4 True b6 b7)
     else c)"

definition toLowerCase :: "string \<Rightarrow> string" where
  "toLowerCase s = map lower_char s"

text \<open>\<^verbatim>\<open>s.includes(n)\<close>: \<open>n\<close> occurs in \<open>s\<close> as a contiguous run.\<close>

fun str_includes :: "string \<Rightarrow> string \<Rightarrow> bool" where
  "str_includes [] n = (n = [])"
| "str_includes (x # xs) n = (prefix n (x # xs) \<or> str_includes xs n)"

definition includes_any :: "string \<Rightarrow> string list \<Rightarrow> bool" where
  "includes_any s ns = (\<exists>n \<in> set ns. str_includes s n)"

text \<open>\<^verbatim>\<open>s.startsWith(p)\<close> is \<^term>\<open>prefix p s\<close>; \<^verbatim>\<open>s.slice(a, b)\<close> for \<open>0 \<le> a \<le> b\<close>:\<close>

definition slice :: "nat \<Rightarrow> nat \<Rightarrow> string \<Rightarrow> string" where
  "slice a b s = take (b - a) (drop a s)"

section \<open>Phone numbers\<close>

text \<open>
  \<^verbatim>\<open>formatPhoneNumber\<close> (utils.ts, lines 566 to 591). \<^verbatim>\<open>phone.replace(/\D/g, '')\<close>
  deletes every character that is not a digit.
\<close>

definition digitsOf :: "string \<Rightarrow> string" where
  "digitsOf phone = filter is_digit phone"

definition formatPhoneNumber :: "string \<Rightarrow> string" where
  "formatPhoneNumber phone =
     (if phone = [] then phone
      else let digits = digitsOf phone in
        if length digits = 10
          then ''+1-'' @ slice 0 3 digits @ ''-'' @ slice 3 6 digits @ ''-'' @ drop 6 digits
        else if length digits = 11 \<and> prefix ''1'' digits
          then ''+'' @ slice 0 1 digits @ ''-'' @ slice 1 4 digits @ ''-'' @ slice 4 7 digits
               @ ''-'' @ drop 7 digits
        else if 10 \<le> length digits \<and> length digits \<le> 11
                \<and> (prefix ''44'' digits \<or> prefix ''0'' digits)
          then (let cleanDigits = (if prefix ''44'' digits then digits else ''44'' @ drop 1 digits)
                in ''+'' @ slice 0 2 cleanDigits @ ''-'' @ slice 2 5 cleanDigits @ ''-''
                   @ slice 5 8 cleanDigits @ ''-'' @ drop 8 cleanDigits)
        else if 7 \<le> length digits then trim phone
        else phone)"

section \<open>Numbers\<close>

text \<open>
  A JavaScript number is modelled by the decimal it is read from: \<open>Dec m e\<close> stands for
  \<open>m * 10 ^ e\<close>, next to the three non-finite values. The model identifies a decimal
  literal with the double nearest to it. Comparisons against the integer bounds of this
  program and the printed form agree with IEEE 754 doubles for every literal of at most
  fifteen significant digits; the two zeros are one value, which no operation used here
  can tell apart.
\<close>

datatype jsnum = NaN | PosInf | NegInf | Dec int int

definition num_truthy :: "jsnum \<Rightarrow> bool" where
  "num_truthy n = (case n of NaN \<Rightarrow> False | Dec m e \<Rightarrow> m \<noteq> 0 | _ \<Rightarrow> True)"

definition isNaN :: "jsnum \<Rightarrow> bool" where
  "isNaN n = (n = NaN)"

text \<open>The relational operator \<^verbatim>\<open><\<close> on numbers; every comparison with NaN is false.\<close>

definition num_lt :: "jsnum \<Rightarrow> jsnum \<Rightarrow> bool" where
  "num_lt a b = (case (a, b) of
       (NaN, _) \<Rightarrow> False
     | (_, NaN) \<Rightarrow> False
     | (PosInf, _) \<Rightarrow> False
     | (_, NegInf) \<Rightarrow> False
     | (NegInf, _) \<Rightarrow> True
     | (_, PosInf) \<Rightarrow> True
     | (Dec m1 e1, Dec m2 e2) \<Rightarrow>
         (let e = min e1 e2 in m1 * 10 ^ nat (e1 - e) < m2 * 10 ^ nat (e2 - e)))"

definition num_gt :: "jsnum \<Rightarrow> jsnum \<Rightarrow> bool" where
  "num_gt a b = num_lt b a"

definition num_of_int :: "int \<Rightarrow> jsnum" where
  "num_of_int i = Dec i 0"

subsection \<open>Reading digits\<close>

definition digit_val :: "char \<Rightarrow> int" where
  "digit_val c = of_char c - 48"

definition int_of_digits :: "string \<Rightarrow> int" where
  "int_of_digits ds = foldl (\<lambda>a c. 10 * a + digit_val c) 0 ds"

definition is_hex :: "char \<Rightarrow> bool" where
  "is_hex c = (c \<in> set ''0123456789abcdefABCDEF'')"

definition hex_val :: "char \<Rightarrow> int" where
  "hex_val c = (if is_digit c then of_char c - 48
                else if c \<in> set ''abcdef'' then of_char c - 87 else of_char c - 55)"

definition int_of_hex :: "string \<Rightarrow> int" where
  "int_of_hex ds = foldl (\<lambda>a c. 16 * a + hex_val c) 0 ds"

text \<open>The optional exponent part of a decimal literal; an incomplete one is not read.\<close>

definition exponent_of :: "string \<Rightarrow> int" where
  "exponent_of r = (case r of
       [] \<Rightarrow> 0
     | c # rest \<Rightarrow>
         if c = CHR ''e'' \<or> c = CHR ''E'' then
           (let neg = prefix ''-'' rest;
                r' = (if prefix ''-'' rest \<or> prefix ''+'' rest then drop 1 rest else rest);
                ds = takeWhile is_digit r'
            in if ds = [] then 0
               else if neg then - int_of_digits ds else int_of_digits ds)
         else 0)"

text \<open>
  \<^verbatim>\<open>parseFloat\<close>: leading white space is skipped, then the longest prefix that is a
  decimal literal (sign, \<^verbatim>\<open>Infinity\<close>, digits, fraction, exponent) is read; no such
  prefix gives NaN.
\<close>

definition parseFloat :: "string \<Rightarrow> jsnum" where
  "parseFloat str =
     (let s0 = dropWhile is_space str;
          neg = prefix ''-'' s0;
          s1 = (if prefix ''-'' s0 \<or> prefix ''+'' s0 then drop 1 s0 else s0)
      in if prefix ''Infinity'' s1 then (if neg then NegInf else PosInf)
         else
           (let ip = takeWhile is_digit s1;
                r1 = dropWhile is_digit s1;
                fp = (if prefix ''.'' r1 then takeWhile is_digit (drop 1 r1) else []);
                r2 = (if prefix ''.'' r1 then dropWhile is_digit (drop 1 r1) else r1);
                m = int_of_digits (ip @ fp)
            in if ip = [] \<and> fp = [] then NaN
               else Dec (if neg then - m else m) (exponent_of r2 - int (length fp))))"

text \<open>
  \<^verbatim>\<open>parseInt\<close> with no radix: white space and sign, then base 16 after \<^verbatim>\<open>0x\<close> and base
  10 otherwise; the digits up to the first character that is none; no digit gives NaN.
\<close>

definition parseInt :: "string \<Rightarrow> jsnum" where
  "parseInt str =
     (let s0 = dropWhile is_space str;
          neg = prefix ''-'' s0;
          s1 = (if prefix ''-'' s0 \<or> prefix ''+'' s0 then drop 1 s0 else s0);
          hex = (prefix ''0x'' s1 \<or> prefix ''0X'' s1);
          ds = (if hex then takeWhile is_hex (drop 2 s1) else takeWhile is_digit s1);
          v = (if hex then int_of_hex ds else int_of_digits ds)
      in if ds = [] then NaN else Dec (if neg then - v else v) 0)"

subsection \<open>Printing\<close>

definition digit_char :: "int \<Rightarrow> char" where
  "digit_char d = ''0123456789'' ! nat d"

function digits_of_int :: "int \<Rightarrow> string" where
  "digits_of_int n =
     (if n < 10 then [digit_char n]
      else digits_of_int (n div 10) @ [digit_char (n mod 10)])"
  by pat_completeness auto
termination
  by (relation "measure nat") auto

definition strip_zeros :: "string \<Rightarrow> string" where
  "strip_zeros ds = rev (dropWhile (\<lambda>c. c = CHR ''0'') (rev ds))"

text \<open>
  \<^verbatim>\<open>Number.prototype.toString\<close>: with \<open>s\<close> the significant digits, \<open>k\<close> their count and
  \<open>n\<close> the position of the decimal point, the four layouts of the language standard.
\<close>

definition num_to_string :: "jsnum \<Rightarrow> string" where
  "num_to_string x = (case x of
       NaN \<Rightarrow> ''NaN''
     | PosInf \<Rightarrow> ''Infinity''
     | NegInf \<Rightarrow> ''-Infinity''
     | Dec m e \<Rightarrow>
         if m = 0 then ''0''
         else
           (let ds = digits_of_int \<bar>m\<bar>;
                s = strip_zeros ds;
                k = int (length s);
                n = int (length ds) + e;
                sign = (if m < 0 then ''-'' else '''')
            in sign @
               (if k \<le> n \<and> n \<le> 21 then s @ replicate (nat (n - k)) CHR ''0''
                else if 0 < n \<and> n \<le> 21 then take (nat n) s @ ''.'' @ drop (nat n) s
                else if - 6 < n \<and> n \<le> 0 then ''0.'' @ replicate (nat (- n)) CHR ''0'' @ s
                else
                  (let x = n - 1;
                       es = (if x < 0 then ''-'' else ''+'') @ digits_of_int \<bar>x\<bar>
                   in if k = 1 then s @ ''e'' @ es
                      else take 1 s @ ''.'' @ drop 1 s @ ''e'' @ es))))"

section \<open>Values\<close>

text \<open>
  The documents handed to the cleaner are plain data: \<open>Obj kvs\<close> is an object whose
  prototype is \<^verbatim>\<open>Object.prototype\<close> and whose own enumerable properties are \<open>kvs\<close>, in
  the order of \<^verbatim>\<open>Object.keys\<close>, with distinct keys. \<open>Fun f\<close> is the built-in function
  named \<open>f\<close>; such a value only arises when a table is read at the name of a member of
  \<^verbatim>\<open>Object.prototype\<close>.
\<close>

datatype jsval =
    Undefined
  | Null
  | Bool bool
  | Num jsnum
  | Str string
  | Arr "jsval list"
  | Obj "(string \<times> jsval) list"
  | Fun string

type_synonym props = "(string \<times> jsval) list"

datatype error = TypeError | EngineSpecific

text \<open>Truthiness, \<^verbatim>\<open>v == null\<close>, and \<^verbatim>\<open>v && typeof v === 'object'\<close>.\<close>

fun truthy :: "jsval \<Rightarrow> bool" where
  "truthy Undefined = False"
| "truthy Null = False"
| "truthy (Bool b) = b"
| "truthy (Num n) = num_truthy n"
| "truthy (Str s) = (s \<noteq> [])"
| "truthy (Arr xs) = True"
| "truthy (Obj kvs) = True"
| "truthy (Fun f) = True"

fun nullish :: "jsval \<Rightarrow> bool" where
  "nullish Undefined = True"
| "nullish Null = True"
| "nullish v = False"

fun is_object :: "jsval \<Rightarrow> bool" where
  "is_object (Arr xs) = True"
| "is_object (Obj kvs) = True"
| "is_object v = False"

fun is_array :: "jsval \<Rightarrow> bool" where
  "is_array (Arr xs) = True"
| "is_array v = False"

text \<open>\<^verbatim>\<open>a || b\<close> on values.\<close>

definition js_or :: "jsval \<Rightarrow> jsval \<Rightarrow> jsval" where
  "js_or a b = (if truthy a then a else b)"

fun join_with :: "string \<Rightarrow> string list \<Rightarrow> string" where
  "join_with sep [] = []"
| "join_with sep [x] = x"
| "join_with sep (x # y # ys) = x @ sep @ join_with sep (y # ys)"

text \<open>
  The conversion to a string that template literals, \<^verbatim>\<open>parseFloat\<close>, \<^verbatim>\<open>parseInt\<close>,
  \<^verbatim>\<open>RegExp.prototype.test\<close> and property keys apply to their argument. The text of a
  built-in function is the one V8 prints.
\<close>

fun to_string :: "jsval \<Rightarrow> string" where
  "to_string Undefined = ''undefined''"
| "to_string Null = ''null''"
| "to_string (Bool b) = (if b then ''true'' else ''false'')"
| "to_string (Num n) = num_to_string n"
| "to_string (Str s) = s"
| "to_string (Arr xs) =
     join_with '','' (map (\<lambda>x. if nullish x then [] else to_string x) xs)"
| "to_string (Obj kvs) = ''[object Object]''"
| "to_string (Fun f) = ''function '' @ f @ ''() { [native code] }''"

text \<open>Reading an own property of a document node by a fixed name: \<^verbatim>\<open>obj.name\<close>.\<close>

definition get :: "props \<Rightarrow> string \<Rightarrow> jsval" where
  "get kvs k = (case map_of kvs k of None \<Rightarrow> Undefined | Some v \<Rightarrow> v)"

text \<open>
  \<^verbatim>\<open>obj.k = v\<close> replaces the value of an own key where it stands and appends a new key;
  \<^verbatim>\<open>delete obj.k\<close> removes it.
\<close>

definition put :: "string \<Rightarrow> jsval \<Rightarrow> props \<Rightarrow> props" where
  "put k v kvs = AList.update k v kvs"

definition del :: "string \<Rightarrow> props \<Rightarrow> props" where
  "del k kvs = AList.delete k kvs"

text \<open>\<^verbatim>\<open>v?.k\<close> on any value: only an object of the document has the property.\<close>

definition opt_get :: "jsval \<Rightarrow> string \<Rightarrow> jsval" where
  "opt_get v k = (case v of Obj kvs \<Rightarrow> get kvs k | _ \<Rightarrow> Undefined)"

subsection \<open>Lookup tables\<close>

text \<open>
  The tables of the program are object literals read with \<^verbatim>\<open>table[key]\<close>, which also
  finds what every object inherits: the members of \<^verbatim>\<open>Object.prototype\<close>. The key
  \<^verbatim>\<open>constructor\<close> yields the function \<^verbatim>\<open>Object\<close>, \<^verbatim>\<open>__proto__\<close> yields the prototype
  object itself (an object with no enumerable key), the other names their method.
\<close>

definition proto_methods :: "string list" where
  "proto_methods = [''__defineGetter__'', ''__defineSetter__'', ''hasOwnProperty'',
     ''__lookupGetter__'', ''__lookupSetter__'', ''isPrototypeOf'', ''propertyIsEnumerable'',
     ''toString'', ''valueOf'', ''toLocaleString'']"

definition proto_get :: "string \<Rightarrow> jsval" where
  "proto_get k = (if k = ''constructor'' then Fun ''Object''
                  else if k = ''__proto__'' then Obj []
                  else if k \<in> set proto_methods then Fun k
                  else Undefined)"

definition table_get :: "(string \<times> string) list \<Rightarrow> string \<Rightarrow> jsval" where
  "table_get tbl k = (case map_of tbl k of Some v \<Rightarrow> Str v | None \<Rightarrow> proto_get k)"

section \<open>Regular expressions\<close>

text \<open>
  The regular expressions of the program are terms of the datatype \<open>re\<close>, and \<open>rmatch\<close> is
  the backtracking matcher of the language standard: from a position it returns every
  way the expression can match, in the order in which backtracking tries them, so the
  head of the list is the match the engine reports. A position is the text before it
  (reversed), the text after it and the capture groups set so far.
\<close>

datatype re =
    Eps
  | Lit char
  | OneOf string
  | NoneOf string
  | AnyChar
  | Bol
  | Eol
  | WordB
  | Seq re re
  | Alt re re
  | Opt re
  | Star re
  | Grp nat re

type_synonym mstate = "string \<times> string \<times> (nat \<times> string) list"

text \<open>
  With the flag \<^verbatim>\<open>i\<close> two characters match when their canonical forms agree, which
  within Latin-1 is the upper case of the letters that have one there.
\<close>

definition is_lower :: "char \<Rightarrow> bool" where
  "is_lower c = (let n = (of_char c :: nat) in
     (97 \<le> n \<and> n \<le> 122) \<or> (224 \<le> n \<and> n \<le> 254 \<and> n \<noteq> 247))"

definition canon :: "bool \<Rightarrow> char \<Rightarrow> char" where
  "canon ci c = (if ci \<and> is_lower c
     then (case c of Char b0 b1 b2 b3 b4 b5 b6 b7 \<Rightarrow> Char b0 b1 b2 b3 b4 False b6 b7)
     else c)"

definition step_char :: "(char \<Rightarrow> bool) \<Rightarrow> mstate \<Rightarrow> mstate list" where
  "step_char P st = (case st of (b, r, caps) \<Rightarrow>
     (case r of [] \<Rightarrow> [] | c # cs \<Rightarrow> if P c then [(c # b, cs, caps)] else []))"

text \<open>An iteration of a quantifier that consumes nothing is given up.\<close>

definition progress :: "mstate \<Rightarrow> mstate \<Rightarrow> bool" where
  "progress st st' = (length (fst (snd st')) < length (fst (snd st)))"

text \<open>
  The greedy star: at most as many iterations as characters are left, since each one
  consumes at least one.
\<close>

primrec star :: "nat \<Rightarrow> (mstate \<Rightarrow> mstate list) \<Rightarrow> mstate \<Rightarrow> mstate list" where
  "star 0 f st = [st]"
| "star (Suc n) f st = concat (map (star n f) (filter (progress st) (f st))) @ [st]"

definition at_word :: "string \<Rightarrow> bool" where
  "at_word s = (case s of [] \<Rightarrow> False | c # _ \<Rightarrow> is_word c)"

definition capture :: "nat \<Rightarrow> mstate \<Rightarrow> mstate \<Rightarrow> mstate" where
  "capture n st st' = (case st of (b, r, caps) \<Rightarrow> (case st' of (b', r', caps') \<Rightarrow>
     (b', r', (n, rev (take (length b' - length b) b')) # caps')))"

primrec rmatch :: "bool \<Rightarrow> re \<Rightarrow> mstate \<Rightarrow> mstate list" where
  "rmatch ci Eps st = [st]"
| "rmatch ci (Lit a) st = step_char (\<lambda>c. canon ci c = canon ci a) st"
| "rmatch ci (OneOf cs) st = step_char (\<lambda>c. canon ci c \<in> set (map (canon ci) cs)) st"
| "rmatch ci (NoneOf cs) st = step_char (\<lambda>c. canon ci c \<notin> set (map (canon ci) cs)) st"
| "rmatch ci AnyChar st = step_char (\<lambda>c. c \<notin> set [CHR 0x0A, CHR 0x0D]) st"
| "rmatch ci Bol st = (if fst st = [] then [st] else [])"
| "rmatch ci Eol st = (if fst (snd st) = [] then [st] else [])"
| "rmatch ci WordB st = (if at_word (fst st) \<noteq> at_word (fst (snd st)) then [st] else [])"
| "rmatch ci (Seq r1 r2) st = concat (map (rmatch ci r2) (rmatch ci r1 st))"
| "rmatch ci (Alt r1 r2) st = rmatch ci r1 st @ rmatch ci r2 st"
| "rmatch ci (Opt r) st = filter (progress st) (rmatch ci r st) @ [st]"
| "rmatch ci (Star r) st = star (length (fst (snd st))) (rmatch ci r) st"
| "rmatch ci (Grp n r) st = map (capture n st) (rmatch ci r st)"

text \<open>
  \<open>re_search\<close> tries the start positions from left to right. \<open>re_exec\<close> is
  \<^verbatim>\<open>RegExp.prototype.exec\<close> from index 0 (and \<^verbatim>\<open>String.prototype.match\<close>, whose first
  element is the same with and without the flag \<^verbatim>\<open>g\<close>): the matched text and the groups.
  \<open>re_test\<close> is \<^verbatim>\<open>RegExp.prototype.test\<close> with \<^verbatim>\<open>lastIndex\<close> at 0.
\<close>

fun re_search :: "bool \<Rightarrow> re \<Rightarrow> string \<Rightarrow> string \<Rightarrow> (mstate \<times> mstate) option" where
  "re_search ci r b [] =
     (case rmatch ci r (b, [], []) of [] \<Rightarrow> None | x # _ \<Rightarrow> Some ((b, [], []), x))"
| "re_search ci r b (c # cs) =
     (case rmatch ci r (b, c # cs, []) of
        [] \<Rightarrow> re_search ci r (c # b) cs
      | x # _ \<Rightarrow> Some ((b, c # cs, []), x))"

definition matched_text :: "mstate \<Rightarrow> mstate \<Rightarrow> string" where
  "matched_text st st' = rev (take (length (fst st') - length (fst st)) (fst st'))"

definition re_exec :: "bool \<Rightarrow> re \<Rightarrow> string \<Rightarrow> (string \<times> (nat \<times> string) list) option" where
  "re_exec ci r s = (case re_search ci r [] s of
       None \<Rightarrow> None
     | Some (st, st') \<Rightarrow> Some (matched_text st st', snd (snd st')))"

definition re_test :: "bool \<Rightarrow> re \<Rightarrow> string \<Rightarrow> bool" where
  "re_test ci r s = (re_exec ci r s \<noteq> None)"

text \<open>The value of capture group \<open>n\<close>; a group that took no part is undefined.\<close>

definition group :: "(nat \<times> string) list \<Rightarrow> nat \<Rightarrow> string option" where
  "group caps n = map_of caps n"

subsection \<open>Notation of the patterns\<close>

definition seqs :: "re list \<Rightarrow> re" where
  "seqs rs = foldr Seq rs Eps"

definition Plus :: "re \<Rightarrow> re" where
  "Plus r = Seq r (Star r)"

primrec rep :: "nat \<Rightarrow> re \<Rightarrow> re" where
  "rep 0 r = Eps"
| "rep (Suc n) r = Seq r (rep n r)"

definition digits10 :: string where
  "digits10 = ''0123456789''"

definition lettersAZ :: string where
  "lettersAZ = ''ABCDEFGHIJKLMNOPQRSTUVWXYZ''"

definition spaces :: string where
  "spaces = [CHR 0x09, CHR 0x0A, CHR 0x0B, CHR 0x0C, CHR 0x0D, CHR 0x20, CHR 0xA0]"

definition digit :: re where
  "digit = OneOf digits10"

subsection \<open>The patterns of utils.ts\<close>

text \<open>
  \<^verbatim>\<open>postalCodePatterns\<close> (lines 9 to 16), each with its flag \<^verbatim>\<open>i\<close>:
  \<^verbatim>\<open>US: /\b\d{5}(-\d{4})?\b/g\<close>, \<^verbatim>\<open>CA: /\b[A-Z]\d[A-Z]\s*\d[A-Z]\d\b/gi\<close>,
  \<^verbatim>\<open>UK: /\b[A-Z]{1,2}\d[A-Z\d]?\s*\d[A-Z]{2}\b/gi\<close>, \<^verbatim>\<open>AU: /\b\d{4}\b/g\<close>,
  \<^verbatim>\<open>DE: /\b\d{5}\b/g\<close>, \<^verbatim>\<open>FR: /\b\d{5}\b/g\<close>.
\<close>

definition re_US :: re where
  "re_US = seqs [WordB, rep 5 digit, Opt (Grp 1 (Seq (Lit CHR ''-'') (rep 4 digit))), WordB]"

definition re_CA :: re where
  "re_CA = seqs [WordB, OneOf lettersAZ, digit, OneOf lettersAZ, Star (OneOf spaces),
                 digit, OneOf lettersAZ, digit, WordB]"

definition re_UK :: re where
  "re_UK = seqs [WordB, OneOf lettersAZ, Opt (OneOf lettersAZ), digit,
                 Opt (OneOf (lettersAZ @ digits10)), Star (OneOf spaces),
                 digit, rep 2 (OneOf lettersAZ), WordB]"

definition re_AU :: re where
  "re_AU = seqs [WordB, rep 4 digit, WordB]"

definition re_DE :: re where
  "re_DE = seqs [WordB, rep 5 digit, WordB]"

definition postalCodePatterns :: "(string \<times> bool \<times> re) list" where
  "postalCodePatterns =
     [(''US'', False, re_US), (''CA'', True, re_CA), (''UK'', True, re_UK),
      (''AU'', False, re_AU), (''DE'', False, re_DE), (''FR'', False, re_DE)]"

text \<open>\<^verbatim>\<open>/^([0-1]?[0-9]|2[0-3]):[0-5][0-9]$/\<close> of \<^verbatim>\<open>isValidTimeFormat\<close>.\<close>

definition timeRegex :: re where
  "timeRegex = seqs [Bol,
     Grp 1 (Alt (Seq (Opt (OneOf ''01'')) digit) (Seq (Lit CHR ''2'') (OneOf ''0123''))),
     Lit CHR '':'', OneOf ''012345'', digit, Eol]"

text \<open>\<^verbatim>\<open>/^[^\s@]+@[^\s@]+\.[^\s@]+$/\<close> of \<^verbatim>\<open>isValidEmail\<close>.\<close>

definition emailRegex :: re where
  "emailRegex = seqs [Bol, Plus (NoneOf (spaces @ ''@'')), Lit CHR ''@'',
     Plus (NoneOf (spaces @ ''@'')), Lit CHR ''.'', Plus (NoneOf (spaces @ ''@'')), Eol]"

text \<open>\<^verbatim>\<open>/^\$+$/\<close> and \<^verbatim>\<open>/\$+/\<close> of \<^verbatim>\<open>validatePriceRange\<close>.\<close>

definition dollarsOnly :: re where
  "dollarsOnly = seqs [Bol, Plus (Lit CHR ''$''), Eol]"

definition dollarRun :: re where
  "dollarRun = Plus (Lit CHR ''$'')"

text \<open>
  \<^verbatim>\<open>/^([^:]+):\s*([^-]+)-(.+)$/i\<close> and \<^verbatim>\<open>/^([^-]+)-([^:]+):\s*([^-]+)-(.+)$/i\<close> of
  \<^verbatim>\<open>formatBusinessHours\<close>.
\<close>

definition dayLine :: re where
  "dayLine = seqs [Bol, Grp 1 (Plus (NoneOf '':'')), Lit CHR '':'', Star (OneOf spaces),
     Grp 2 (Plus (NoneOf ''-'')), Lit CHR ''-'', Grp 3 (Plus AnyChar), Eol]"

definition rangeLine :: re where
  "rangeLine = seqs [Bol, Grp 1 (Plus (NoneOf ''-'')), Lit CHR ''-'', Grp 2 (Plus (NoneOf '':'')),
     Lit CHR '':'', Star (OneOf spaces), Grp 3 (Plus (NoneOf ''-'')), Lit CHR ''-'',
     Grp 4 (Plus AnyChar), Eol]"

section \<open>The pattern library\<close>

subsection \<open>Tables\<close>

definition cityPriceMapping :: "(string \<times> string) list" where
  "cityPriceMapping =
    [(''new york'', ''$$$$''), (''manhattan'', ''$$$$''), (''san francisco'', ''$$$$''),
     (''palo alto'', ''$$$$''), (''cupertino'', ''$$$$''), (''mountain view'', ''$$$$''),
     (''beverly hills'', ''$$$$''), (''monaco'', ''$$$$''), (''hong kong'', ''$$$$''),
     (''zurich'', ''$$$$''), (''geneva'', ''$$$$''),
     (''los angeles'', ''$$$''), (''seattle'', ''$$$''), (''boston'', ''$$$''),
     (''washington'', ''$$$''), (''washington dc'', ''$$$''), (''chicago'', ''$$$''),
     (''miami'', ''$$$''), (''san diego'', ''$$$''), (''san jose'', ''$$$''),
     (''oakland'', ''$$$''), (''denver'', ''$$$''), (''austin'', ''$$$''),
     (''portland'', ''$$$''), (''vancouver'', ''$$$''), (''toronto'', ''$$$''),
     (''london'', ''$$$''), (''paris'', ''$$$''), (''tokyo'', ''$$$''),
     (''sydney'', ''$$$''), (''melbourne'', ''$$$''),
     (''atlanta'', ''$$''), (''dallas'', ''$$''), (''houston'', ''$$''), (''phoenix'', ''$$''),
     (''nashville'', ''$$''), (''charlotte'', ''$$''), (''raleigh'', ''$$''), (''tampa'', ''$$''),
     (''orlando'', ''$$''), (''las vegas'', ''$$''), (''salt lake city'', ''$$''),
     (''minneapolis'', ''$$''), (''milwaukee'', ''$$''), (''indianapolis'', ''$$''),
     (''columbus'', ''$$''), (''cincinnati'', ''$$''), (''pittsburgh'', ''$$''),
     (''baltimore'', ''$$''), (''richmond'', ''$$''), (''jacksonville'', ''$$''),
     (''san antonio'', ''$$''), (''fort worth'', ''$$''), (''albuquerque'', ''$$''),
     (''tucson'', ''$$''), (''sacramento'', ''$$''), (''fresno'', ''$$''),
     (''detroit'', ''$''), (''cleveland'', ''$''), (''buffalo'', ''$''), (''kansas city'', ''$''),
     (''oklahoma city'', ''$''), (''tulsa'', ''$''), (''memphis'', ''$''), (''birmingham'', ''$''),
     (''little rock'', ''$''), (''jackson'', ''$''), (''shreveport'', ''$''), (''mobile'', ''$''),
     (''montgomery'', ''$''), (''huntsville'', ''$''), (''chattanooga'', ''$''),
     (''knoxville'', ''$''), (''louisville'', ''$''), (''lexington'', ''$''), (''toledo'', ''$''),
     (''akron'', ''$''), (''youngstown'', ''$''), (''dayton'', ''$''), (''fort wayne'', ''$''),
     (''evansville'', ''$''), (''peoria'', ''$''), (''rockford'', ''$''), (''green bay'', ''$''),
     (''des moines'', ''$''), (''cedar rapids'', ''$''), (''sioux city'', ''$''),
     (''fargo'', ''$''), (''bismarck'', ''$''), (''rapid city'', ''$''), (''billings'', ''$''),
     (''great falls'', ''$''), (''boise'', ''$''), (''spokane'', ''$''), (''yakima'', ''$'')]"

definition businessTypePriceMapping :: "(string \<times> string) list" where
  "businessTypePriceMapping =
    [(''LegalService'', ''$$$''), (''MedicalBusiness'', ''$$$''), (''DentalBusiness'', ''$$''),
     (''Restaurant'', ''$$''), (''HVACBusiness'', ''$$''), (''ProfessionalService'', ''$$''),
     (''HomeAndConstructionBusiness'', ''$$''), (''AutomotiveBusiness'', ''$''),
     (''LocalBusiness'', ''$$'')]"

definition cityStateMapping :: "(string \<times> string) list" where
  "cityStateMapping =
    [(''new york'', ''NY''), (''los angeles'', ''CA''), (''chicago'', ''IL''),
     (''houston'', ''TX''), (''phoenix'', ''AZ''), (''philadelphia'', ''PA''),
     (''san antonio'', ''TX''), (''san diego'', ''CA''), (''dallas'', ''TX''),
     (''san jose'', ''CA''), (''austin'', ''TX''), (''jacksonville'', ''FL''),
     (''fort worth'', ''TX''), (''columbus'', ''OH''), (''charlotte'', ''NC''),
     (''francisco'', ''CA''), (''indianapolis'', ''IN''), (''seattle'', ''WA''),
     (''denver'', ''CO''), (''washington'', ''DC''), (''boston'', ''MA''), (''el paso'', ''TX''),
     (''detroit'', ''MI''), (''nashville'', ''TN''), (''memphis'', ''TN''), (''portland'', ''OR''),
     (''oklahoma city'', ''OK''), (''las vegas'', ''NV''), (''baltimore'', ''MD''),
     (''louisville'', ''KY''), (''milwaukee'', ''WI''), (''albuquerque'', ''NM''),
     (''tucson'', ''AZ''), (''fresno'', ''CA''), (''mesa'', ''AZ''), (''sacramento'', ''CA''),
     (''atlanta'', ''GA''), (''kansas city'', ''MO''), (''colorado springs'', ''CO''),
     (''omaha'', ''NE''), (''raleigh'', ''NC''), (''miami'', ''FL''), (''oakland'', ''CA''),
     (''minneapolis'', ''MN''), (''tulsa'', ''OK''), (''cleveland'', ''OH''), (''wichita'', ''KS''),
     (''arlington'', ''TX''), (''new orleans'', ''LA''), (''bakersfield'', ''CA''),
     (''tampa'', ''FL''), (''honolulu'', ''HI''), (''aurora'', ''CO''), (''anaheim'', ''CA''),
     (''santa ana'', ''CA''), (''st. louis'', ''MO''), (''riverside'', ''CA''),
     (''corpus christi'', ''TX''), (''lexington'', ''KY''), (''pittsburgh'', ''PA''),
     (''anchorage'', ''AK''), (''stockton'', ''CA''), (''cincinnati'', ''OH''),
     (''saint paul'', ''MN''), (''toledo'', ''OH''), (''greensboro'', ''NC''),
     (''newark'', ''NJ''), (''plano'', ''TX''), (''henderson'', ''NV''), (''lincoln'', ''NE''),
     (''buffalo'', ''NY''), (''jersey city'', ''NJ''), (''chula vista'', ''CA''),
     (''fort wayne'', ''IN''), (''orlando'', ''FL''), (''st. petersburg'', ''FL''),
     (''chandler'', ''AZ''), (''laredo'', ''TX''), (''norfolk'', ''VA''), (''durham'', ''NC''),
     (''madison'', ''WI''), (''lubbock'', ''TX''), (''irvine'', ''CA''),
     (''winston-salem'', ''NC''), (''glendale'', ''AZ''), (''garland'', ''TX''),
     (''hialeah'', ''FL''), (''reno'', ''NV''), (''chesapeake'', ''VA''), (''gilbert'', ''AZ''),
     (''baton rouge'', ''LA''), (''irving'', ''TX''), (''scottsdale'', ''AZ''),
     (''north las vegas'', ''NV''), (''fremont'', ''CA''), (''boise city'', ''ID''),
     (''richmond'', ''VA''), (''san bernardino'', ''CA''), (''birmingham'', ''AL''),
     (''spokane'', ''WA''), (''rochester'', ''NY'')]"

definition commonCityZipMapping :: "(string \<times> string) list" where
  "commonCityZipMapping =
    [(''new york'', ''10001''), (''los angeles'', ''90001''), (''chicago'', ''60601''),
     (''houston'', ''77001''), (''phoenix'', ''85001''), (''philadelphia'', ''19101''),
     (''san antonio'', ''78201''), (''san diego'', ''92101''), (''dallas'', ''75201''),
     (''san jose'', ''95101''), (''austin'', ''78701''), (''seattle'', ''98101''),
     (''denver'', ''80201''), (''washington'', ''20001''), (''boston'', ''02101''),
     (''las vegas'', ''89101''), (''atlanta'', ''30301''), (''miami'', ''33101''),
     (''charlotte'', ''28201''), (''portland'', ''97201''), (''san francisco'', ''94101'')]"

subsection \<open>Postal codes\<close>

text \<open>
  \<^verbatim>\<open>postalCodePatterns[country] || postalCodePatterns.US\<close>: the pattern of the country,
  the inherited member when the key names one (it is truthy), the US pattern otherwise.
\<close>

definition postal_pattern :: "string \<Rightarrow> (bool \<times> re) + jsval" where
  "postal_pattern k = (case map_of postalCodePatterns k of
       Some p \<Rightarrow> Inl p
     | None \<Rightarrow> if truthy (proto_get k) then Inr (proto_get k) else Inl (False, re_US))"

text \<open>
  \<^verbatim>\<open>extractPostalCode\<close> (lines 335 to 346). \<^verbatim>\<open>text.match\<close> turns a pattern that is no
  regular expression into one through its string: the prototype object gives the class
  \<^verbatim>\<open>[object Object]\<close>; for a built-in function the text, and so the match, depends on
  the engine, and the model stops.
\<close>

definition extractPostalCode :: "string \<Rightarrow> jsval \<Rightarrow> error + jsval" where
  "extractPostalCode text country =
     (if text = [] then Inr Undefined
      else case postal_pattern (to_string country) of
          Inl (ci, r) \<Rightarrow>
            (case re_exec ci r text of
               Some (m, caps) \<Rightarrow> Inr (Str (trim m))
             | None \<Rightarrow> Inr Undefined)
        | Inr (Obj kvs) \<Rightarrow>
            (case re_exec False (OneOf ''object Object'') text of
               Some (m, caps) \<Rightarrow> Inr (Str (trim m))
             | None \<Rightarrow> Inr Undefined)
        | Inr v \<Rightarrow> Inl EngineSpecific)"

text \<open>
  \<^verbatim>\<open>isValidPostalCode\<close> (lines 351 to 358); an undefined country takes the default
  \<^verbatim>\<open>'US'\<close>. An inherited member has no method \<^verbatim>\<open>test\<close>: the call throws.
\<close>

definition isValidPostalCode :: "jsval \<Rightarrow> jsval \<Rightarrow> error + bool" where
  "isValidPostalCode postalCode country =
     (if \<not> truthy postalCode then Inr False
      else case postal_pattern (to_string (if country = Undefined then Str ''US'' else country)) of
          Inl (ci, r) \<Rightarrow> Inr (re_test ci r (to_string postalCode))
        | Inr v \<Rightarrow> Inl TypeError)"

subsection \<open>Price tiers\<close>

text \<open>\<^verbatim>\<open>detectPriceRange\<close> (lines 363 to 394).\<close>

definition textualContent :: "jsval \<Rightarrow> jsval \<Rightarrow> string" where
  "textualContent businessName description =
     toLowerCase (to_string (js_or businessName (Str '''')) @ '' ''
                  @ to_string (js_or description (Str '''')))"

definition textualPriceIndicator :: "string \<Rightarrow> string" where
  "textualPriceIndicator t =
     (if str_includes t ''luxury'' \<or> str_includes t ''premium'' \<or> str_includes t ''exclusive''
         \<or> str_includes t ''high-end'' then ''$$$$''
      else if str_includes t ''upscale'' \<or> str_includes t ''boutique''
         \<or> str_includes t ''sophisticated'' then ''$$$''
      else if str_includes t ''affordable'' \<or> str_includes t ''budget''
         \<or> str_includes t ''discount'' \<or> str_includes t ''cheap'' then ''$''
      else if str_includes t ''value'' \<or> str_includes t ''reasonable''
         \<or> str_includes t ''moderate'' then ''$$''
      else '''')"

definition detectPriceRange :: "jsval \<Rightarrow> jsval \<Rightarrow> jsval \<Rightarrow> jsval \<Rightarrow> error + jsval" where
  "detectPriceRange city businessType businessName description =
     (if \<not> truthy city then Inr (Str ''$$'')
      else case city of
          Str c \<Rightarrow>
            (let cityLower = trim (toLowerCase c);
                 cityPriceRange = table_get cityPriceMapping cityLower;
                 businessTypePriceRange = table_get businessTypePriceMapping (to_string businessType);
                 indicator = textualPriceIndicator (textualContent businessName description)
             in if indicator \<noteq> [] then Inr (Str indicator)
                else if truthy cityPriceRange then Inr cityPriceRange
                else if truthy businessTypePriceRange then Inr businessTypePriceRange
                else Inr (Str ''$$''))
        | _ \<Rightarrow> Inl TypeError)"

text \<open>\<^verbatim>\<open>validatePriceRange\<close> (lines 596 to 626), on a string.\<close>

definition validatePriceRange :: "string \<Rightarrow> string" where
  "validatePriceRange priceRange =
     (if priceRange = [] then priceRange
      else let cleaned = trim priceRange in
        if re_test False dollarsOnly cleaned then cleaned
        else let lowerPrice = toLowerCase cleaned in
          if str_includes lowerPrice ''luxury'' \<or> str_includes lowerPrice ''exclusive''
             \<or> str_includes lowerPrice ''premium'' \<or> str_includes lowerPrice ''very expensive''
            then ''$$$$''
          else if str_includes lowerPrice ''expensive'' \<or> str_includes lowerPrice ''upscale''
             \<or> str_includes lowerPrice ''high-end''
            then ''$$$''
          else if str_includes lowerPrice ''moderate'' \<or> str_includes lowerPrice ''mid-range''
             \<or> str_includes lowerPrice ''reasonable''
            then ''$$''
          else if str_includes lowerPrice ''inexpensive'' \<or> str_includes lowerPrice ''cheap''
             \<or> str_includes lowerPrice ''budget'' \<or> str_includes lowerPrice ''affordable''
            then ''$''
          else case re_exec False dollarRun cleaned of
              Some (m, caps) \<Rightarrow> m
            | None \<Rightarrow> ''$$'')"

subsection \<open>Cities, times, addresses of the web, electronic mail\<close>

text \<open>\<^verbatim>\<open>inferStateFromCity\<close> (lines 399 to 511) and \<^verbatim>\<open>inferPostalCodeFromCity\<close>
  (lines 960 to 988); a method of strings called on another value throws.\<close>

definition inferStateFromCity :: "jsval \<Rightarrow> error + jsval" where
  "inferStateFromCity city =
     (if \<not> truthy city then Inr Undefined
      else case city of
          Str c \<Rightarrow> Inr (table_get cityStateMapping (trim (toLowerCase c)))
        | _ \<Rightarrow> Inl TypeError)"

definition inferPostalCodeFromCity :: "string \<Rightarrow> jsval" where
  "inferPostalCodeFromCity city = table_get commonCityZipMapping (trim (toLowerCase city))"

text \<open>\<^verbatim>\<open>isValidTimeFormat\<close> (lines 516 to 520).\<close>

definition isValidTimeFormat :: "jsval \<Rightarrow> error + bool" where
  "isValidTimeFormat time =
     (if \<not> truthy time then Inr False
      else case time of
          Str t \<Rightarrow> Inr (re_test False timeRegex (trim t))
        | _ \<Rightarrow> Inl TypeError)"

text \<open>\<^verbatim>\<open>ensureAbsoluteUrl\<close> (lines 525 to 541).\<close>

definition ensureAbsoluteUrl :: "jsval \<Rightarrow> error + jsval" where
  "ensureAbsoluteUrl url =
     (if \<not> truthy url then Inr url
      else case url of
          Str u \<Rightarrow>
            if prefix ''http://'' u \<or> prefix ''https://'' u then Inr url
            else if prefix ''//'' u then Inr (Str (''https:'' @ u))
            else Inr url
        | _ \<Rightarrow> Inl TypeError)"

text \<open>
  \<^verbatim>\<open>isValidUrl\<close> (lines 546 to 553) asks the platform whether \<^verbatim>\<open>new URL(s)\<close> throws. The
  URL parser of the platform is a parameter \<open>U\<close> of the model: \<open>U s\<close> holds when the
  parser accepts \<open>s\<close>.
\<close>

definition isValidUrl :: "(string \<Rightarrow> bool) \<Rightarrow> jsval \<Rightarrow> bool" where
  "isValidUrl U v = U (to_string v)"

text \<open>
  Every theorem with the parameter \<open>U\<close> holds for all parsers. The examples need one to
  run with; they use a parser that accepts the strings beginning with \<^verbatim>\<open>http://\<close> or
  \<^verbatim>\<open>https://\<close>.
\<close>

definition sampleParser :: "string \<Rightarrow> bool" where
  "sampleParser s = (prefix ''http://'' s \<or> prefix ''https://'' s)"

text \<open>\<^verbatim>\<open>isValidEmail\<close> (lines 558 to 561).\<close>

definition isValidEmail :: "jsval \<Rightarrow> bool" where
  "isValidEmail email = re_test False emailRegex (to_string email)"

text \<open>\<^verbatim>\<open>formatPhoneNumber\<close> as the cleaner calls it, on any truthy value.\<close>

definition formatPhone :: "jsval \<Rightarrow> error + jsval" where
  "formatPhone phone =
     (if \<not> truthy phone then Inr phone
      else case phone of
          Str p \<Rightarrow> Inr (Str (formatPhoneNumber p))
        | _ \<Rightarrow> Inl TypeError)"

section \<open>The tree cleaner\<close>

text \<open>
  \<^verbatim>\<open>cleanObject\<close> (utils.ts, lines 137 to 330) first applies the rules of a typed node to
  the node itself, in place, and then rebuilds the node from its cleaned properties. A
  rule returns the node after its assignments, or nothing where the source returns
  \<^verbatim>\<open>null\<close>, or the error that the source throws.
\<close>

definition bindE :: "error + 'a \<Rightarrow> ('a \<Rightarrow> error + 'b) \<Rightarrow> error + 'b" where
  "bindE r f = (case r of Inl e \<Rightarrow> Inl e | Inr x \<Rightarrow> f x)"

definition andThen ::
  "error + props option \<Rightarrow> (props \<Rightarrow> error + props option) \<Rightarrow> error + props option" where
  "andThen r f = (case r of Inl e \<Rightarrow> Inl e | Inr None \<Rightarrow> Inr None | Inr (Some obj) \<Rightarrow> f obj)"

fun mapE :: "('a \<Rightarrow> error + 'b) \<Rightarrow> 'a list \<Rightarrow> error + 'b list" where
  "mapE f [] = Inr []"
| "mapE f (x # xs) = bindE (f x) (\<lambda>y. bindE (mapE f xs) (\<lambda>ys. Inr (y # ys)))"

definition typeIs :: "props \<Rightarrow> string \<Rightarrow> bool" where
  "typeIs obj t = (get obj ''@type'' = Str t)"

subsection \<open>Rules by node type\<close>

text \<open>Question (lines 151 to 156).\<close>

definition defaultAnswer :: jsval where
  "defaultAnswer = Obj [(''@type'', Str ''Answer''), (''text'', Str ''Contact us for more information.'')]"

definition questionRule :: "props \<Rightarrow> error + props option" where
  "questionRule obj =
     Inr (Some (if typeIs obj ''Question'' \<and> \<not> truthy (get obj ''acceptedAnswer'')
                   \<and> truthy (get obj ''name'')
                then put ''acceptedAnswer'' defaultAnswer obj
                else obj))"

text \<open>OpeningHoursSpecification (lines 159 to 167).\<close>

definition openingHoursRule :: "props \<Rightarrow> error + props option" where
  "openingHoursRule obj =
     (if typeIs obj ''OpeningHoursSpecification'' then
        if \<not> truthy (get obj ''dayOfWeek'') \<or> \<not> truthy (get obj ''opens'')
           \<or> \<not> truthy (get obj ''closes'') then Inr None
        else bindE (isValidTimeFormat (get obj ''opens'')) (\<lambda>opensOk.
          if \<not> opensOk then Inr None
          else bindE (isValidTimeFormat (get obj ''closes'')) (\<lambda>closesOk.
            if \<not> closesOk then Inr None else Inr (Some obj)))
      else Inr (Some obj))"

text \<open>GeoCoordinates (lines 170 to 180).\<close>

definition geoRule :: "props \<Rightarrow> error + props option" where
  "geoRule obj =
     (if typeIs obj ''GeoCoordinates'' then
        if \<not> truthy (get obj ''latitude'') \<or> \<not> truthy (get obj ''longitude'') then Inr None
        else
          (let lat = parseFloat (to_string (get obj ''latitude''));
               lng = parseFloat (to_string (get obj ''longitude''))
           in if num_lt lat (num_of_int (- 90)) \<or> num_gt lat (num_of_int 90)
                 \<or> num_lt lng (num_of_int (- 180)) \<or> num_gt lng (num_of_int 180)
              then Inr None
              else Inr (Some obj))
      else Inr (Some obj))"

text \<open>AggregateRating (lines 183 to 198).\<close>

definition ratingRule :: "props \<Rightarrow> error + props option" where
  "ratingRule obj =
     (if typeIs obj ''AggregateRating'' then
        if \<not> truthy (get obj ''ratingValue'') \<or> \<not> truthy (get obj ''reviewCount'') then Inr None
        else
          (let rating = parseFloat (to_string (get obj ''ratingValue''));
               count = parseInt (to_string (get obj ''reviewCount''))
           in if num_lt rating (num_of_int 1) \<or> num_gt rating (num_of_int 5)
                 \<or> num_lt count (num_of_int 1)
              then Inr None
              else Inr (Some
                (put ''worstRating'' (Str ''1'')
                  (put ''bestRating'' (Str ''5'')
                    (put ''reviewCount'' (Str (num_to_string count))
                      (put ''ratingValue'' (Str (num_to_string rating)) obj))))))
      else Inr (Some obj))"

text \<open>PostalAddress (lines 201 to 243), in the five stages of the source.\<close>

definition fullAddressText :: "props \<Rightarrow> string" where
  "fullAddressText obj =
     trim (to_string (js_or (get obj ''streetAddress'') (Str '''')) @ '' ''
           @ to_string (js_or (get obj ''addressLocality'') (Str '''')) @ '' ''
           @ to_string (js_or (get obj ''addressRegion'') (Str '''')))"

definition addrExtract :: "props \<Rightarrow> error + props" where
  "addrExtract obj =
     (if \<not> truthy (get obj ''postalCode'')
         \<and> (truthy (get obj ''streetAddress'') \<or> truthy (get obj ''addressLocality''))
      then bindE (extractPostalCode (fullAddressText obj)
                    (js_or (get obj ''addressCountry'') (Str ''US'')))
             (\<lambda>code. Inr (put ''postalCode'' code obj))
      else Inr obj)"

definition addrValidate :: "props \<Rightarrow> error + props" where
  "addrValidate obj =
     (if truthy (get obj ''postalCode'')
      then bindE (isValidPostalCode (get obj ''postalCode'')
                    (js_or (get obj ''addressCountry'') (Str ''US'')))
             (\<lambda>ok. Inr (if ok then obj else del ''postalCode'' obj))
      else Inr obj)"

definition hasAnyAddress :: "props \<Rightarrow> bool" where
  "hasAnyAddress obj =
     (truthy (get obj ''streetAddress'') \<or> truthy (get obj ''addressLocality'')
      \<or> truthy (get obj ''addressRegion'') \<or> truthy (get obj ''postalCode''))"

definition addrDefaults :: "props \<Rightarrow> error + props" where
  "addrDefaults obj =
     (let o1 = (if \<not> truthy (get obj ''streetAddress'')
                   \<and> (truthy (get obj ''addressLocality'') \<or> truthy (get obj ''addressRegion''))
                then put ''streetAddress'' (Str ''Address available upon request'') obj
                else obj);
          o2 = (if \<not> truthy (get o1 ''addressLocality'') \<and> truthy (get o1 ''addressRegion'')
                then put ''addressLocality'' (Str ''Local Area'') o1
                else o1)
      in if \<not> truthy (get o2 ''addressRegion'') \<and> truthy (get o2 ''addressLocality'')
         then bindE (inferStateFromCity (get o2 ''addressLocality''))
                (\<lambda>st. Inr (put ''addressRegion'' (js_or st (Str ''State'')) o2))
         else Inr o2)"

definition trimField :: "string \<Rightarrow> props \<Rightarrow> error + props" where
  "trimField k obj =
     (if truthy (get obj k)
      then case get obj k of
          Str s \<Rightarrow> Inr (put k (Str (trim s)) obj)
        | _ \<Rightarrow> Inl TypeError
      else Inr obj)"

definition addrTrim :: "props \<Rightarrow> error + props" where
  "addrTrim obj =
     bindE (trimField ''streetAddress'' obj) (\<lambda>o1.
     bindE (trimField ''addressLocality'' o1) (\<lambda>o2.
     bindE (trimField ''addressRegion'' o2) (\<lambda>o3.
     trimField ''postalCode''
       (put ''addressCountry'' (js_or (get o3 ''addressCountry'') (Str ''US'')) o3))))"

definition addressRule :: "props \<Rightarrow> error + props option" where
  "addressRule obj =
     (if typeIs obj ''PostalAddress'' then
        bindE (addrExtract obj) (\<lambda>o1.
        bindE (addrValidate o1) (\<lambda>o2.
          if \<not> hasAnyAddress o2 then Inr None
          else bindE (addrDefaults o2) (\<lambda>o3.
               bindE (addrTrim o3) (\<lambda>o4. Inr (Some o4)))))
      else Inr (Some obj))"

text \<open>ImageObject (lines 246 to 252) and WebPage (lines 293 to 297).\<close>

definition absolutize :: "string \<Rightarrow> props \<Rightarrow> error + props" where
  "absolutize k obj = bindE (ensureAbsoluteUrl (get obj k)) (\<lambda>u. Inr (put k u obj))"

definition imageRule :: "props \<Rightarrow> error + props option" where
  "imageRule obj =
     (if typeIs obj ''ImageObject'' then
        if \<not> truthy (get obj ''url'') then Inr None
        else bindE (absolutize ''url'' obj) (\<lambda>o1. Inr (Some o1))
      else Inr (Some obj))"

definition webPageRule :: "props \<Rightarrow> error + props option" where
  "webPageRule obj =
     (if typeIs obj ''WebPage'' \<and> truthy (get obj ''url'')
      then bindE (absolutize ''url'' obj) (\<lambda>o1. Inr (Some o1))
      else Inr (Some obj))"

text \<open>Business entities (lines 255 to 290).\<close>

definition businessTypes :: "string list" where
  "businessTypes = [''LocalBusiness'', ''Restaurant'', ''ProfessionalService'', ''LegalService'',
     ''MedicalBusiness'', ''HomeAndConstructionBusiness'', ''AutomotiveBusiness'',
     ''Organization'']"

definition bizPhone :: "props \<Rightarrow> error + props" where
  "bizPhone obj =
     (if truthy (get obj ''telephone'')
      then bindE (formatPhone (get obj ''telephone'')) (\<lambda>p. Inr (put ''telephone'' p obj))
      else Inr obj)"

definition bizEmail :: "props \<Rightarrow> props" where
  "bizEmail obj =
     (if truthy (get obj ''email'') \<and> \<not> isValidEmail (get obj ''email'')
      then del ''email'' obj else obj)"

definition bizPrice :: "props \<Rightarrow> error + props" where
  "bizPrice obj =
     (if \<not> truthy (get obj ''priceRange'')
         \<and> truthy (opt_get (get obj ''address'') ''addressLocality'')
      then bindE (detectPriceRange (opt_get (get obj ''address'') ''addressLocality'')
                    (get obj ''@type'') (get obj ''name'') (get obj ''description''))
             (\<lambda>p. Inr (put ''priceRange'' p obj))
      else Inr obj)"

definition bizUrl :: "props \<Rightarrow> error + props" where
  "bizUrl obj = (if truthy (get obj ''url'') then absolutize ''url'' obj else Inr obj)"

definition bizSameAs :: "(string \<Rightarrow> bool) \<Rightarrow> props \<Rightarrow> error + props" where
  "bizSameAs U obj =
     (case get obj ''sameAs'' of
        Arr urls \<Rightarrow>
          bindE (mapE ensureAbsoluteUrl urls)
            (\<lambda>us. Inr (put ''sameAs'' (Arr (filter (isValidUrl U) us)) obj))
      | _ \<Rightarrow> Inr obj)"

definition businessRule :: "(string \<Rightarrow> bool) \<Rightarrow> props \<Rightarrow> error + props option" where
  "businessRule U obj =
     (if \<exists>t \<in> set businessTypes. typeIs obj t then
        if \<not> truthy (get obj ''name'') then Inr None
        else bindE (bizPhone obj) (\<lambda>o1.
             bindE (bizPrice (bizEmail o1)) (\<lambda>o2.
             bindE (bizUrl o2) (\<lambda>o3.
             bindE (bizSameAs U o3) (\<lambda>o4. Inr (Some o4)))))
      else Inr (Some obj))"

text \<open>The rules in the order of the source, for a node whose \<^verbatim>\<open>@type\<close> is truthy.\<close>

definition node_rules :: "(string \<Rightarrow> bool) \<Rightarrow> props \<Rightarrow> error + props option" where
  "node_rules U obj =
     (if truthy (get obj ''@type'') then
        andThen (andThen (andThen (andThen (andThen (andThen (andThen
          (questionRule obj) openingHoursRule) geoRule) ratingRule) addressRule)
          imageRule) (businessRule U)) webPageRule
      else Inr (Some obj))"

subsection \<open>Generic pruning\<close>

text \<open>The filter of an array (line 141) and the test of the reducer (lines 305 to 325).\<close>

definition keep_item :: "jsval \<Rightarrow> bool" where
  "keep_item v = (\<not> (nullish v \<or> v = Str []))"

definition keep_prop :: "jsval \<Rightarrow> bool" where
  "keep_prop c =
     (\<not> nullish c \<and> c \<noteq> Str [] \<and>
      (case c of
         Arr xs \<Rightarrow> xs \<noteq> []
       | Obj kvs \<Rightarrow> kvs \<noteq> [] \<or> truthy (get kvs ''@type'')
       | _ \<Rightarrow> True))"

subsection \<open>The recursion\<close>

text \<open>
  The recursion descends into the properties of the node as the rules left it, which
  may hold values that the rules made. It is well founded all the same: no such value
  is deeper than the node it is put in.
\<close>

fun depth :: "jsval \<Rightarrow> nat" where
  "depth (Arr xs) = Suc (Max (insert 0 (depth ` set xs)))"
| "depth (Obj kvs) = (if kvs = [] then 0 else Suc (Max (insert 0 ((\<lambda>p. depth (snd p)) ` set kvs))))"
| "depth v = 0"

definition is_question :: "jsval \<Rightarrow> bool" where
  "is_question v = (case v of Obj kvs \<Rightarrow> typeIs kvs ''Question'' | _ \<Rightarrow> False)"

definition weight :: "jsval \<Rightarrow> nat" where
  "weight v = 2 * depth v + (if is_question v then 1 else 0)"

definition max_weight :: "jsval list \<Rightarrow> nat" where
  "max_weight vs = Max (insert 0 ((\<lambda>v. Suc (weight v)) ` set vs))"

subsection \<open>The rules do not deepen a node\<close>

definition below :: "nat \<Rightarrow> props \<Rightarrow> bool" where
  "below B obj = (\<forall>p \<in> set obj. weight (snd p) < B)"

lemma max_weight_Cons: "max_weight (v # vs) = max (Suc (weight v)) (max_weight vs)"
proof -
  let ?f = "\<lambda>v. Suc (weight v)"
  have e: "insert 0 (?f ` set (v # vs)) = insert (?f v) (insert 0 (?f ` set vs))"
    by auto
  have "Max (insert (?f v) (insert 0 (?f ` set vs))) = max (?f v) (Max (insert 0 (?f ` set vs)))"
    by (rule Max_insert) simp_all
  then show ?thesis
    unfolding max_weight_def e .
qed

lemma max_weight_below: "below B obj \<Longrightarrow> max_weight (map snd obj) < Suc B"
  by (auto simp: max_weight_def below_def less_Suc_eq_le)

lemma is_question_Arr [simp]: "\<not> is_question (Arr xs)"
  by (simp add: is_question_def)

lemma weight_Arr: "weight (Arr xs) = 2 * Max (insert 0 (depth ` set xs)) + 2"
  by (simp add: weight_def)

lemma weight_le: "weight v \<le> Suc (2 * depth v)"
  by (simp add: weight_def)

lemma depth_elem: "x \<in> set xs \<Longrightarrow> depth x \<le> Max (insert 0 (depth ` set xs))"
  by (rule Max_ge) auto

lemma weight_elem:
  assumes "x \<in> set xs"
  shows "weight x < weight (Arr xs)"
  using depth_elem [OF assms] weight_le [of x] unfolding weight_Arr by linarith

lemma max_weight_Arr: "max_weight xs < Suc (weight (Arr xs))"
  using weight_elem [of _ xs] by (auto simp: max_weight_def less_Suc_eq_le Suc_le_eq)

lemma depth_prop:
  "p \<in> set obj \<Longrightarrow> depth (snd p) \<le> Max (insert 0 ((\<lambda>p. depth (snd p)) ` set obj))"
  by (rule Max_ge) auto

lemma weight_Obj_ge:
  "obj \<noteq> [] \<Longrightarrow> 2 * Max (insert 0 ((\<lambda>p. depth (snd p)) ` set obj)) + 2 \<le> weight (Obj obj)"
  by (simp add: weight_def)

lemma weight_prop: "p \<in> set obj \<Longrightarrow> weight (snd p) < weight (Obj obj)"
proof -
  assume p: "p \<in> set obj"
  then have "obj \<noteq> []" by auto
  then show ?thesis
    using depth_prop [OF p] weight_le [of "snd p"] weight_Obj_ge [of obj] by linarith
qed

lemma below_weight: "below (weight (Obj obj)) obj"
  using weight_prop by (auto simp: below_def)

lemma weight_typed: "truthy (get obj ''@type'') \<Longrightarrow> 2 \<le> weight (Obj obj)"
  by (cases obj) (auto simp: weight_def get_def)

lemma weight_question: "typeIs obj ''Question'' \<Longrightarrow> 3 \<le> weight (Obj obj)"
  by (cases obj) (auto simp: weight_def get_def typeIs_def is_question_def)

lemma put_set: "set (put k v obj) \<subseteq> insert (k, v) (set obj)"
  unfolding put_def by (induction obj) auto

lemma del_set: "set (del k obj) \<subseteq> set obj"
  by (auto simp: del_def AList.delete_eq)

lemma put_below: "below B obj \<Longrightarrow> weight v < B \<Longrightarrow> below B (put k v obj)"
  using put_set [of k v obj] by (auto simp: below_def)

lemma del_below: "below B obj \<Longrightarrow> below B (del k obj)"
  using del_set [of k obj] by (auto simp: below_def)

lemma get_below: "below B obj \<Longrightarrow> 0 < B \<Longrightarrow> weight (get obj k) < B"
  by (auto simp: below_def get_def weight_def is_question_def split: option.splits
      dest!: map_of_SomeD)

lemma weight_atoms [simp]:
  "weight Undefined = 0" "weight Null = 0" "weight (Bool b) = 0" "weight (Num n) = 0"
  "weight (Str s) = 0" "weight (Fun f) = 0" "weight (Obj []) = 0"
  by (simp_all add: weight_def is_question_def typeIs_def get_def)

lemma weight_table_get [simp]: "weight (table_get tbl k) = 0"
  by (simp add: table_get_def proto_get_def split: option.splits)

lemma weight_js_or: "weight (js_or a b) \<le> max (weight a) (weight b)"
  by (simp add: js_or_def)

lemma weight_defaultAnswer: "weight defaultAnswer = 2"
  by (simp add: defaultAnswer_def weight_def is_question_def typeIs_def get_def)

lemma ensureAbsoluteUrl_weight: "ensureAbsoluteUrl u = Inr u' \<Longrightarrow> weight u' \<le> weight u"
  by (auto simp: ensureAbsoluteUrl_def split: if_splits jsval.splits)

lemma ensureAbsoluteUrl_flat: "ensureAbsoluteUrl u = Inr u' \<Longrightarrow> depth u' = 0"
  by (cases u) (auto simp: ensureAbsoluteUrl_def split: if_splits)

lemma mapE_flat:
  "mapE ensureAbsoluteUrl us = Inr vs \<Longrightarrow> \<forall>v \<in> set vs. depth v = 0"
proof (induction us arbitrary: vs)
  case Nil
  then show ?case by simp
next
  case (Cons u us)
  then show ?case
    by (auto simp: bindE_def split: sum.splits dest: ensureAbsoluteUrl_flat)
qed

lemma weight_flat_array: "\<forall>v \<in> set vs. depth v = 0 \<Longrightarrow> weight (Arr vs) = 2"
proof -
  assume flat: "\<forall>v \<in> set vs. depth v = 0"
  have "Max (insert 0 (depth ` set vs)) = 0"
    by (rule Max_eqI) (use flat in auto)
  then show ?thesis by (simp add: weight_Arr)
qed

lemma weight_array_ge: "2 \<le> weight (Arr vs)"
  by (simp add: weight_Arr)

lemma questionRule_below:
  assumes "questionRule obj = Inr (Some obj')" and "below B obj"
    and "typeIs obj ''Question'' \<longrightarrow> 3 \<le> B"
  shows "below B obj'"
  using assms by (auto simp: questionRule_def weight_defaultAnswer intro!: put_below split: if_splits)

lemma openingHoursRule_below:
  "openingHoursRule obj = Inr (Some obj') \<Longrightarrow> below B obj \<Longrightarrow> below B obj'"
  by (auto simp: openingHoursRule_def bindE_def split: if_splits sum.splits)

lemma geoRule_below: "geoRule obj = Inr (Some obj') \<Longrightarrow> below B obj \<Longrightarrow> below B obj'"
  by (auto simp: geoRule_def Let_def split: if_splits)

lemma ratingRule_below:
  "ratingRule obj = Inr (Some obj') \<Longrightarrow> below B obj \<Longrightarrow> 0 < B \<Longrightarrow> below B obj'"
  by (auto simp: ratingRule_def Let_def intro!: put_below split: if_splits)

lemma extractPostalCode_weight: "extractPostalCode t c = Inr v \<Longrightarrow> weight v = 0"
  by (auto simp: extractPostalCode_def split: if_splits sum.splits option.splits jsval.splits)

lemma addrExtract_below:
  "addrExtract obj = Inr obj' \<Longrightarrow> below B obj \<Longrightarrow> 0 < B \<Longrightarrow> below B obj'"
  by (auto simp: addrExtract_def bindE_def intro!: put_below dest: extractPostalCode_weight
      split: if_splits sum.splits)

lemma addrValidate_below:
  "addrValidate obj = Inr obj' \<Longrightarrow> below B obj \<Longrightarrow> below B obj'"
  by (auto simp: addrValidate_def bindE_def intro!: del_below split: if_splits sum.splits)

lemma inferStateFromCity_weight: "inferStateFromCity c = Inr v \<Longrightarrow> weight v = 0"
  by (auto simp: inferStateFromCity_def split: if_splits jsval.splits)

lemma addrDefaults_below:
  assumes "addrDefaults obj = Inr obj'" and "below B obj" and "0 < B"
  shows "below B obj'"
proof -
  let ?o1 = "if \<not> truthy (get obj ''streetAddress'')
                   \<and> (truthy (get obj ''addressLocality'') \<or> truthy (get obj ''addressRegion''))
                then put ''streetAddress'' (Str ''Address available upon request'') obj
                else obj"
  let ?o2 = "if \<not> truthy (get ?o1 ''addressLocality'') \<and> truthy (get ?o1 ''addressRegion'')
                then put ''addressLocality'' (Str ''Local Area'') ?o1
                else ?o1"
  have b1: "below B ?o1"
    using assms(2,3) by (simp add: put_below)
  have b2: "below B ?o2"
    using b1 assms(3) by (simp add: put_below del: if_split cong: if_cong)
  have st: "\<And>c v. inferStateFromCity c = Inr v \<Longrightarrow> weight (js_or v (Str ''State'')) < B"
    using assms(3) weight_js_or inferStateFromCity_weight
    by (metis max_0L weight_atoms(5) le_zero_eq not_gr_zero)
  from assms(1) have
    "(\<not> truthy (get ?o2 ''addressRegion'') \<and> truthy (get ?o2 ''addressLocality'')
       \<and> (\<exists>v. inferStateFromCity (get ?o2 ''addressLocality'') = Inr v
              \<and> obj' = put ''addressRegion'' (js_or v (Str ''State'')) ?o2))
     \<or> obj' = ?o2"
    by (auto simp: addrDefaults_def Let_def bindE_def split: if_splits sum.splits)
  then show ?thesis
    using b2 st by (auto intro!: put_below)
qed

lemma trimField_below:
  "trimField k obj = Inr obj' \<Longrightarrow> below B obj \<Longrightarrow> 0 < B \<Longrightarrow> below B obj'"
  by (auto simp: trimField_def intro!: put_below split: if_splits jsval.splits)

lemma addrTrim_below:
  assumes "addrTrim obj = Inr obj'" and "below B obj" and "0 < B"
  shows "below B obj'"
proof -
  from assms(1) obtain o1 o2 o3 where
    s1: "trimField ''streetAddress'' obj = Inr o1" and
    s2: "trimField ''addressLocality'' o1 = Inr o2" and
    s3: "trimField ''addressRegion'' o2 = Inr o3" and
    s4: "trimField ''postalCode''
           (put ''addressCountry'' (js_or (get o3 ''addressCountry'') (Str ''US'')) o3) = Inr obj'"
    by (auto simp: addrTrim_def bindE_def split: sum.splits)
  have b3: "below B o3"
    using s1 s2 s3 assms(2,3) trimField_below by blast
  have "weight (js_or (get o3 ''addressCountry'') (Str ''US'')) < B"
    using get_below [OF b3 assms(3), of "''addressCountry''"] assms(3)
    by (simp add: js_or_def)
  then show ?thesis
    using s4 b3 assms(3) trimField_below put_below by blast
qed

lemma addressRule_below:
  assumes "addressRule obj = Inr (Some obj')" and "below B obj" and "0 < B"
  shows "below B obj'"
proof (cases "typeIs obj ''PostalAddress''")
  case False
  then show ?thesis using assms by (simp add: addressRule_def)
next
  case True
  with assms(1) obtain o1 o2 o3 where
    "addrExtract obj = Inr o1" "addrValidate o1 = Inr o2" "addrDefaults o2 = Inr o3"
    "addrTrim o3 = Inr obj'"
    by (auto simp: addressRule_def bindE_def split: sum.splits if_splits)
  then show ?thesis
    using assms(2,3) addrExtract_below addrValidate_below addrDefaults_below addrTrim_below
    by blast
qed

lemma absolutize_below:
  assumes "absolutize k obj = Inr obj'" and "below B obj" and "0 < B"
  shows "below B obj'"
proof -
  from assms(1) obtain u where u: "ensureAbsoluteUrl (get obj k) = Inr u" and o: "obj' = put k u obj"
    by (auto simp: absolutize_def bindE_def split: sum.splits)
  have "weight u < B"
    using ensureAbsoluteUrl_weight [OF u] get_below [OF assms(2,3), of k] by simp
  then show ?thesis
    using o assms(2) by (simp add: put_below)
qed

lemma imageRule_below:
  "imageRule obj = Inr (Some obj') \<Longrightarrow> below B obj \<Longrightarrow> 0 < B \<Longrightarrow> below B obj'"
  by (auto simp: imageRule_def bindE_def split: if_splits sum.splits dest: absolutize_below)

lemma webPageRule_below:
  "webPageRule obj = Inr (Some obj') \<Longrightarrow> below B obj \<Longrightarrow> 0 < B \<Longrightarrow> below B obj'"
  by (auto simp: webPageRule_def bindE_def split: if_splits sum.splits dest: absolutize_below)

lemma formatPhone_weight: "formatPhone p = Inr v \<Longrightarrow> weight v \<le> weight p"
  by (auto simp: formatPhone_def split: if_splits jsval.splits)

lemma bizPhone_below:
  assumes "bizPhone obj = Inr obj'" and "below B obj" and "0 < B"
  shows "below B obj'"
proof (cases "truthy (get obj ''telephone'')")
  case False
  then show ?thesis using assms by (simp add: bizPhone_def)
next
  case True
  with assms(1) obtain p where p: "formatPhone (get obj ''telephone'') = Inr p"
    and o: "obj' = put ''telephone'' p obj"
    by (auto simp: bizPhone_def bindE_def split: sum.splits)
  have "weight p < B"
    using formatPhone_weight [OF p] get_below [OF assms(2,3), of "''telephone''"] by simp
  then show ?thesis
    using o assms(2) by (simp add: put_below)
qed

lemma bizEmail_below: "below B obj \<Longrightarrow> below B (bizEmail obj)"
  by (simp add: bizEmail_def del_below)

lemma detectPriceRange_weight: "detectPriceRange c t n d = Inr v \<Longrightarrow> weight v = 0"
  by (auto simp: detectPriceRange_def Let_def split: if_splits jsval.splits)

lemma bizPrice_below:
  "bizPrice obj = Inr obj' \<Longrightarrow> below B obj \<Longrightarrow> 0 < B \<Longrightarrow> below B obj'"
  by (auto simp: bizPrice_def bindE_def intro!: put_below dest: detectPriceRange_weight
      split: if_splits sum.splits)

lemma bizUrl_below:
  "bizUrl obj = Inr obj' \<Longrightarrow> below B obj \<Longrightarrow> 0 < B \<Longrightarrow> below B obj'"
  by (auto simp: bizUrl_def split: if_splits dest: absolutize_below)

lemma bizSameAs_below:
  assumes "bizSameAs U obj = Inr obj'" and "below B obj" and "0 < B"
  shows "below B obj'"
proof (cases "get obj ''sameAs''")
  case (Arr urls)
  with assms(1) obtain us where us: "mapE ensureAbsoluteUrl urls = Inr us"
    and o: "obj' = put ''sameAs'' (Arr (filter (isValidUrl U) us)) obj"
    by (auto simp: bizSameAs_def bindE_def split: sum.splits)
  have "\<forall>v \<in> set (filter (isValidUrl U) us). depth v = 0"
    using mapE_flat [OF us] by simp
  then have w: "weight (Arr (filter (isValidUrl U) us)) = 2"
    by (rule weight_flat_array)
  have "weight (Arr urls) < B"
    using get_below [OF assms(2,3), of "''sameAs''"] Arr by simp
  then have "weight (Arr (filter (isValidUrl U) us)) < B"
    using w weight_array_ge [of urls] by simp
  then show ?thesis
    using o assms(2) by (simp add: put_below)
qed (use assms in \<open>simp_all add: bizSameAs_def\<close>)

lemma businessRule_below:
  assumes "businessRule U obj = Inr (Some obj')" and "below B obj" and "0 < B"
  shows "below B obj'"
proof (cases "\<exists>t \<in> set businessTypes. typeIs obj t")
  case False
  then show ?thesis using assms by (simp add: businessRule_def)
next
  case True
  with assms(1) obtain o1 o2 o3 where
    "bizPhone obj = Inr o1" "bizPrice (bizEmail o1) = Inr o2" "bizUrl o2 = Inr o3"
    "bizSameAs U o3 = Inr obj'"
    by (auto simp: businessRule_def bindE_def split: sum.splits if_splits)
  then show ?thesis
    using assms(2,3) bizPhone_below bizEmail_below bizPrice_below bizUrl_below bizSameAs_below
    by blast
qed

lemma node_rules_below:
  assumes "node_rules U obj = Inr (Some obj')"
  shows "below (weight (Obj obj)) obj'"
proof (cases "truthy (get obj ''@type'')")
  case False
  then show ?thesis using assms below_weight by (simp add: node_rules_def)
next
  case True
  let ?B = "weight (Obj obj)"
  have pos: "0 < ?B" using weight_typed [OF True] by simp
  from assms True obtain o1 o2 o3 o4 o5 o6 o7 where
    r: "questionRule obj = Inr (Some o1)" "openingHoursRule o1 = Inr (Some o2)"
       "geoRule o2 = Inr (Some o3)" "ratingRule o3 = Inr (Some o4)"
       "addressRule o4 = Inr (Some o5)" "imageRule o5 = Inr (Some o6)"
       "businessRule U o6 = Inr (Some o7)" "webPageRule o7 = Inr (Some obj')"
    by (auto simp: node_rules_def andThen_def split: sum.splits option.splits)
  have "below ?B o1"
    using r(1) below_weight weight_question questionRule_below by blast
  then have "below ?B o2" using r(2) openingHoursRule_below by blast
  then have "below ?B o3" using r(3) geoRule_below by blast
  then have "below ?B o4" using r(4) pos ratingRule_below by blast
  then have "below ?B o5" using r(5) pos addressRule_below by blast
  then have "below ?B o6" using r(6) pos imageRule_below by blast
  then have "below ?B o7" using r(7) pos businessRule_below by blast
  then show ?thesis using r(8) pos webPageRule_below by blast
qed

lemma node_rules_weight:
  assumes "node_rules U obj = Inr (Some obj')"
  shows "max_weight (map snd obj') < Suc (weight (Obj obj))"
  using node_rules_below [OF assms] by (rule max_weight_below)

text \<open>The cleaner: arrays (lines 138 to 141), objects (lines 142 to 328), the rest.\<close>

function cleanObject :: "(string \<Rightarrow> bool) \<Rightarrow> jsval \<Rightarrow> error + jsval"
  and cleanItems :: "(string \<Rightarrow> bool) \<Rightarrow> jsval list \<Rightarrow> error + jsval list"
  and cleanProps :: "(string \<Rightarrow> bool) \<Rightarrow> props \<Rightarrow> error + props"
where
  "cleanObject U (Arr xs) =
     (case cleanItems U xs of Inl e \<Rightarrow> Inl e | Inr ys \<Rightarrow> Inr (Arr (filter keep_item ys)))"
| "cleanObject U (Obj obj) =
     (case node_rules U obj of
        Inl e \<Rightarrow> Inl e
      | Inr None \<Rightarrow> Inr Null
      | Inr (Some obj') \<Rightarrow>
          (case cleanProps U obj' of Inl e \<Rightarrow> Inl e | Inr acc \<Rightarrow> Inr (Obj acc)))"
| "cleanObject U Undefined = Inr Undefined"
| "cleanObject U Null = Inr Null"
| "cleanObject U (Bool b) = Inr (Bool b)"
| "cleanObject U (Num n) = Inr (Num n)"
| "cleanObject U (Str s) = Inr (Str s)"
| "cleanObject U (Fun f) = Inr (Fun f)"
| "cleanItems U [] = Inr []"
| "cleanItems U (v # vs) =
     (case (if truthy v \<and> is_object v then cleanObject U v else Inr v) of
        Inl e \<Rightarrow> Inl e
      | Inr c \<Rightarrow> (case cleanItems U vs of Inl e \<Rightarrow> Inl e | Inr cs \<Rightarrow> Inr (c # cs)))"
| "cleanProps U [] = Inr []"
| "cleanProps U ((key, val) # rest) =
     (case (if truthy val \<and> is_object val then cleanObject U val else Inr val) of
        Inl e \<Rightarrow> Inl e
      | Inr c \<Rightarrow>
          (case cleanProps U rest of
             Inl e \<Rightarrow> Inl e
           | Inr acc \<Rightarrow> Inr (if keep_prop c then (key, c) # acc else acc)))"
  by pat_completeness auto
termination
  by (relation "inv_image (less_than <*lex*> less_than)
       (\<lambda>x. case x of
          Inl (U, v) \<Rightarrow> (Suc (weight v), 0)
        | Inr (Inl (U, vs)) \<Rightarrow> (max_weight vs, Suc (length vs))
        | Inr (Inr (U, kvs)) \<Rightarrow> (max_weight (map snd kvs), Suc (length kvs)))")
     (auto simp: max_weight_Cons max_weight_Arr node_rules_weight)

section \<open>Validation of the form\<close>

text \<open>
  \<^verbatim>\<open>validateFormData\<close> (utils.ts, lines 780 to 954). The form is a \<^verbatim>\<open>FormData\<close>
  (types.ts): every field it has is a string. \<open>field f k\<close> is \<^verbatim>\<open>formData.k\<close> and
  \<open>filled f k\<close> is the test \<^verbatim>\<open>formData.k?.trim()\<close>.
\<close>

type_synonym form = "(string \<times> string) list"

definition field :: "form \<Rightarrow> string \<Rightarrow> jsval" where
  "field f k = (case map_of f k of None \<Rightarrow> Undefined | Some s \<Rightarrow> Str s)"

definition filled :: "form \<Rightarrow> string \<Rightarrow> bool" where
  "filled f k = (case map_of f k of None \<Rightarrow> False | Some s \<Rightarrow> trim s \<noteq> [])"

record validation =
  isValid :: bool
  errors :: "string list"
  cleanedData :: props

type_synonym vstate = "string list \<times> props"

definition need :: "form \<Rightarrow> string \<Rightarrow> string \<Rightarrow> string list \<Rightarrow> string list" where
  "need f k msg errs = (if filled f k then errs else errs @ [msg])"

definition isBusinessForm :: "form \<Rightarrow> bool" where
  "isBusinessForm f =
     (field f ''contentType'' \<noteq> Str ''Article'' \<and> field f ''contentType'' \<noteq> Str ''HowTo'')"

text \<open>The required fields by content type (lines 785 to 830).\<close>

definition requiredFields :: "form \<Rightarrow> bool \<Rightarrow> string list" where
  "requiredFields f isAiGenerated =
     (if field f ''contentType'' = Str ''Article'' then
        need f ''publisherName'' ''Publisher name is required''
          (need f ''authorName'' ''Author name is required''
            (need f ''headline'' ''Article headline is required'' []))
      else if field f ''contentType'' = Str ''HowTo'' then
        need f ''howToName'' ''How-to title is required'' []
      else
        (let e = need f ''description'' ''Business description is required''
                   (need f ''name'' ''Business name is required'' [])
         in if \<not> isAiGenerated then
              need f ''addressRegion'' ''State/Region is required''
                (need f ''addressLocality'' ''City is required''
                  (need f ''streetAddress'' ''Street address is required'' e))
            else e))"

text \<open>The postal code of a business (lines 833 to 849); the validator may throw.\<close>

definition postalStep :: "form \<Rightarrow> bool \<Rightarrow> vstate \<Rightarrow> error + vstate" where
  "postalStep f isAiGenerated st =
     (case st of (errs, cd) \<Rightarrow>
        if \<not> isBusinessForm f then Inr st
        else if filled f ''postalCode'' then
          bindE (isValidPostalCode (field f ''postalCode'')
                   (js_or (field f ''addressCountry'') (Str ''US'')))
            (\<lambda>ok. if ok then Inr st
                   else if \<not> isAiGenerated then Inr (errs @ [''Invalid postal code format''], cd)
                   else Inr (errs, del ''postalCode'' cd))
        else if isAiGenerated \<and> filled f ''addressLocality'' then
          (let inferredZip = inferPostalCodeFromCity (to_string (field f ''addressLocality''))
           in if truthy inferredZip then Inr (errs, put ''postalCode'' inferredZip cd)
              else Inr st)
        else Inr st)"

text \<open>The detected price tier of a business (lines 852 to 861).\<close>

definition priceDetectStep :: "form \<Rightarrow> vstate \<Rightarrow> error + vstate" where
  "priceDetectStep f st =
     (case st of (errs, cd) \<Rightarrow>
        if isBusinessForm f \<and> \<not> filled f ''priceRange'' \<and> filled f ''addressLocality'' then
          bindE (detectPriceRange (field f ''addressLocality'')
                   (js_or (field f ''contentType'') (Str ''LocalBusiness''))
                   (field f ''name'') (field f ''description''))
            (\<lambda>detected. Inr (errs, put ''priceRange'' detected cd))
        else Inr st)"

definition validateHead :: "form \<Rightarrow> bool \<Rightarrow> error + vstate" where
  "validateHead f isAiGenerated =
     bindE (postalStep f isAiGenerated
              (requiredFields f isAiGenerated, map (\<lambda>(k, s). (k, Str s)) f))
       (priceDetectStep f)"

text \<open>
  From the telephone on (lines 864 to 951) every content type takes the same steps. A
  field that fails its check is an error in strict mode and is deleted from the cleaned
  data in lenient mode.
\<close>

definition phoneStep :: "form \<Rightarrow> vstate \<Rightarrow> vstate" where
  "phoneStep f st =
     (case st of (errs, cd) \<Rightarrow>
        if truthy (field f ''telephone'')
        then (errs, put ''telephone'' (Str (formatPhoneNumber (to_string (field f ''telephone'')))) cd)
        else st)"

definition check :: "bool \<Rightarrow> string \<Rightarrow> string \<Rightarrow> bool \<Rightarrow> vstate \<Rightarrow> vstate" where
  "check isAiGenerated key msg bad st =
     (case st of (errs, cd) \<Rightarrow>
        if bad then (if \<not> isAiGenerated then (errs @ [msg], cd) else (errs, del key cd))
        else st)"

definition emailBad :: "form \<Rightarrow> bool" where
  "emailBad f = (truthy (field f ''email'') \<and> \<not> isValidEmail (field f ''email''))"

definition websiteBad :: "(string \<Rightarrow> bool) \<Rightarrow> form \<Rightarrow> bool" where
  "websiteBad U f = (truthy (field f ''websiteUrl'') \<and> \<not> isValidUrl U (field f ''websiteUrl''))"

definition logoBad :: "(string \<Rightarrow> bool) \<Rightarrow> form \<Rightarrow> bool" where
  "logoBad U f =
     (truthy (field f ''publisherLogoUrl'') \<and> \<not> isValidUrl U (field f ''publisherLogoUrl''))"

definition latitudeBad :: "form \<Rightarrow> bool" where
  "latitudeBad f =
     (truthy (field f ''latitude'') \<and>
      (let lat = parseFloat (to_string (field f ''latitude''))
       in isNaN lat \<or> num_lt lat (num_of_int (- 90)) \<or> num_gt lat (num_of_int 90)))"

definition longitudeBad :: "form \<Rightarrow> bool" where
  "longitudeBad f =
     (truthy (field f ''longitude'') \<and>
      (let lng = parseFloat (to_string (field f ''longitude''))
       in isNaN lng \<or> num_lt lng (num_of_int (- 180)) \<or> num_gt lng (num_of_int 180)))"

definition ratingBad :: "form \<Rightarrow> bool" where
  "ratingBad f =
     (truthy (field f ''ratingValue'') \<and>
      (let rating = parseFloat (to_string (field f ''ratingValue''))
       in isNaN rating \<or> num_lt rating (num_of_int 1) \<or> num_gt rating (num_of_int 5)))"

definition countBad :: "form \<Rightarrow> bool" where
  "countBad f =
     (truthy (field f ''reviewCount'') \<and>
      (let count = parseInt (to_string (field f ''reviewCount''))
       in isNaN count \<or> num_lt count (num_of_int 1)))"

definition priceStep :: "form \<Rightarrow> vstate \<Rightarrow> vstate" where
  "priceStep f st =
     (case st of (errs, cd) \<Rightarrow>
        if truthy (field f ''priceRange'')
        then (errs, put ''priceRange''
                      (Str (validatePriceRange (to_string (field f ''priceRange'')))) cd)
        else st)"

definition validateTail :: "(string \<Rightarrow> bool) \<Rightarrow> form \<Rightarrow> bool \<Rightarrow> vstate \<Rightarrow> vstate" where
  "validateTail U f ai st =
     priceStep f
       (check ai ''reviewCount'' ''Review count must be a positive number'' (countBad f)
         (check ai ''ratingValue'' ''Rating must be between 1 and 5'' (ratingBad f)
           (check ai ''longitude'' ''Invalid longitude (must be between -180 and 180)''
              (longitudeBad f)
             (check ai ''latitude'' ''Invalid latitude (must be between -90 and 90)''
                (latitudeBad f)
               (check ai ''publisherLogoUrl'' ''Invalid publisher logo URL'' (logoBad U f)
                 (check ai ''websiteUrl'' ''Invalid website URL'' (websiteBad U f)
                   (check ai ''email'' ''Invalid email format'' (emailBad f)
                     (phoneStep f st))))))))"

text \<open>
  For the proofs: the message a failed check adds in strict mode, and the messages of
  the steps before the telephone.
\<close>

definition msgIf :: "bool \<Rightarrow> string \<Rightarrow> string list" where
  "msgIf bad msg = (if bad then [msg] else [])"


definition validateFormData :: "(string \<Rightarrow> bool) \<Rightarrow> form \<Rightarrow> bool \<Rightarrow> error + validation" where
  "validateFormData U f isAiGenerated =
     bindE (validateHead f isAiGenerated)
       (\<lambda>st. case validateTail U f isAiGenerated st of
          (errs, cd) \<Rightarrow> Inr \<lparr>isValid = (errs = []), errors = errs, cleanedData = cd\<rparr>)"

text \<open>
  The case in which the validator throws instead of returning: a business form with a
  postal code whose country hint names a member of \<^verbatim>\<open>Object.prototype\<close>.
\<close>

definition postalCodeThrows :: "form \<Rightarrow> bool" where
  "postalCodeThrows f =
     (isBusinessForm f \<and> filled f ''postalCode'' \<and>
      isValidPostalCode (field f ''postalCode'')
        (js_or (field f ''addressCountry'') (Str ''US'')) = Inl TypeError)"


section \<open>Opening hours\<close>

subsection \<open>The parser of utils.ts\<close>

text \<open>\<^verbatim>\<open>formatBusinessHours\<close> (utils.ts, lines 993 to 1061).\<close>

fun split_on :: "char \<Rightarrow> string \<Rightarrow> string list" where
  "split_on c [] = [[]]"
| "split_on c (x # xs) =
     (if x = c then [] # split_on c xs
      else case split_on c xs of
          l # ls \<Rightarrow> (x # l) # ls
        | [] \<Rightarrow> [[x]])"

definition dayMapping :: "(string \<times> string) list" where
  "dayMapping =
    [(''monday'', ''Monday''), (''tuesday'', ''Tuesday''), (''wednesday'', ''Wednesday''),
     (''thursday'', ''Thursday''), (''friday'', ''Friday''), (''saturday'', ''Saturday''),
     (''sunday'', ''Sunday''), (''mon'', ''Monday''), (''tue'', ''Tuesday''),
     (''wed'', ''Wednesday''), (''thu'', ''Thursday''), (''fri'', ''Friday''),
     (''sat'', ''Saturday''), (''sun'', ''Sunday'')]"

definition validTime :: "string \<Rightarrow> bool" where
  "validTime t = (isValidTimeFormat (Str t) = Inr True)"

definition hoursNode :: "jsval \<Rightarrow> string \<Rightarrow> string \<Rightarrow> jsval" where
  "hoursNode day opens closes =
     Obj [(''@type'', Str ''OpeningHoursSpecification''), (''dayOfWeek'', day),
          (''opens'', Str opens), (''closes'', Str closes)]"

text \<open>The first shape, \<^verbatim>\<open>Day: start-end\<close>: the node, or nothing to fall through.\<close>

definition singleDay :: "string \<Rightarrow> jsval option" where
  "singleDay line =
     (case re_exec True dayLine line of
        None \<Rightarrow> None
      | Some (m, caps) \<Rightarrow>
          (case (group caps 1, group caps 2, group caps 3) of
             (Some dayPart, Some startTime, Some endTime) \<Rightarrow>
               (let normalizedDay = js_or (table_get dayMapping (toLowerCase (trim dayPart)))
                                          (Str (trim dayPart));
                    opens = trim startTime;
                    closes = trim endTime
                in if validTime opens \<and> validTime closes
                   then Some (hoursNode normalizedDay opens closes)
                   else None)
           | _ \<Rightarrow> None))"

text \<open>The second shape, \<^verbatim>\<open>Day-Day: start-end\<close>: the list of nodes, or nothing.\<close>

definition dayRange :: "string \<Rightarrow> jsval option" where
  "dayRange line =
     (case re_exec True rangeLine line of
        None \<Rightarrow> None
      | Some (m, caps) \<Rightarrow>
          (case (group caps 1, group caps 2, group caps 3, group caps 4) of
             (Some startDay, Some endDay, Some startTime, Some endTime) \<Rightarrow>
               (let days = (if str_includes (toLowerCase (trim startDay)) ''mon''
                               \<and> str_includes (toLowerCase (trim endDay)) ''fri''
                            then [''Monday'', ''Tuesday'', ''Wednesday'', ''Thursday'', ''Friday'']
                            else []);
                    opens = trim startTime;
                    closes = trim endTime
                in if validTime opens \<and> validTime closes
                   then Some (Arr (map (\<lambda>day. hoursNode (Str day) opens closes) days))
                   else None)
           | _ \<Rightarrow> None))"

definition parseLine :: "string \<Rightarrow> jsval" where
  "parseLine line =
     (case singleDay line of
        Some node \<Rightarrow> node
      | None \<Rightarrow> (case dayRange line of Some nodes \<Rightarrow> nodes | None \<Rightarrow> Null))"

text \<open>\<^verbatim>\<open>Array.prototype.flat\<close>, one level deep.\<close>

fun flat :: "jsval list \<Rightarrow> jsval list" where
  "flat [] = []"
| "flat (Arr xs # vs) = xs @ flat vs"
| "flat (v # vs) = v # flat vs"

definition formatBusinessHours :: "string \<Rightarrow> jsval list option" where
  "formatBusinessHours hoursInput =
     (if hoursInput = [] then None
      else let lines = filter (\<lambda>line. trim line \<noteq> []) (split_on CHR 0x0A hoursInput)
           in Some (filter truthy (flat (map parseLine lines))))"

subsection \<open>The extractor of scraper.ts\<close>

text \<open>
  The page extractor (scraper.ts, lines 940 to 959) has a parser of its own: the pattern
  \<^verbatim>\<open>hoursPattern1\<close>, applied again and again from where the last match ended, with
  \<^verbatim>\<open>getDayRange\<close>, \<^verbatim>\<open>capitalize\<close> and \<^verbatim>\<open>convertTo24Hour\<close> (lines 407 to 443). The two
  long dashes of the class in the pattern lie outside Latin-1.
\<close>

definition lits :: "string \<Rightarrow> re" where
  "lits s = seqs (map Lit s)"

definition dayName :: re where
  "dayName = Alt (lits ''Mon'') (Alt (lits ''Tue'') (Alt (lits ''Wed'') (Alt (lits ''Thu'')
               (Alt (lits ''Fri'') (Alt (lits ''Sat'') (lits ''Sun''))))))"

definition clockTime :: re where
  "clockTime = seqs [digit, Opt digit, Lit CHR '':'', rep 2 digit, Star (OneOf spaces),
                     Opt (Alt (lits ''AM'') (lits ''PM''))]"

definition hoursPattern1 :: re where
  "hoursPattern1 = seqs [Grp 1 dayName, Opt (lits ''day''), Star (OneOf (spaces @ ''-'')),
     Opt (Grp 2 dayName), Opt (lits ''day''), Star (OneOf (spaces @ '':'')),
     Grp 3 clockTime, Star (OneOf spaces), OneOf ''-'', Star (OneOf spaces), Grp 4 clockTime]"

text \<open>\<^verbatim>\<open>/(\d{1,2}):(\d{2})\s*(AM|PM)?/i\<close> of \<^verbatim>\<open>convertTo24Hour\<close>.\<close>

definition clockParts :: re where
  "clockParts = seqs [Grp 1 (Seq digit (Opt digit)), Lit CHR '':'', Grp 2 (rep 2 digit),
                      Star (OneOf spaces), Opt (Grp 3 (Alt (lits ''AM'') (lits ''PM'')))]"

definition upper_char :: "char \<Rightarrow> char" where
  "upper_char c = canon True c"

definition padStart2 :: "string \<Rightarrow> string" where
  "padStart2 s = replicate (2 - length s) CHR ''0'' @ s"

definition convertTo24Hour :: "string \<Rightarrow> string" where
  "convertTo24Hour time =
     (case re_exec True clockParts time of
        None \<Rightarrow> time
      | Some (m, caps) \<Rightarrow>
          (case (group caps 1, group caps 2) of
             (Some hours, Some minutes) \<Rightarrow>
               (let period = map_option (map upper_char) (group caps 3);
                    hour = int_of_digits hours;
                    hour1 = (if period = Some ''PM'' \<and> hour \<noteq> 12 then hour + 12 else hour);
                    hour2 = (if period = Some ''AM'' \<and> hour1 = 12 then 0 else hour1)
                in padStart2 (digits_of_int hour2) @ '':'' @ minutes)
           | _ \<Rightarrow> time))"

definition weekDays :: "string list" where
  "weekDays = [''Monday'', ''Tuesday'', ''Wednesday'', ''Thursday'', ''Friday'', ''Saturday'',
               ''Sunday'']"

definition dayAbbr :: "(string \<times> string) list" where
  "dayAbbr = [(''Mon'', ''Monday''), (''Tue'', ''Tuesday''), (''Wed'', ''Wednesday''),
              (''Thu'', ''Thursday''), (''Fri'', ''Friday''), (''Sat'', ''Saturday''),
              (''Sun'', ''Sunday'')]"

fun index_of :: "string list \<Rightarrow> jsval \<Rightarrow> nat option" where
  "index_of [] v = None"
| "index_of (d # ds) v = (if v = Str d then Some 0 else map_option Suc (index_of ds v))"

definition getDayRange :: "string \<Rightarrow> string \<Rightarrow> string list" where
  "getDayRange start finish =
     (let startDay = js_or (table_get dayAbbr start) (Str start);
          endDay = js_or (table_get dayAbbr finish) (Str finish)
      in case (index_of weekDays startDay, index_of weekDays endDay) of
           (Some i, Some j) \<Rightarrow> take (Suc j - i) (drop i weekDays)
         | _ \<Rightarrow> [])"

definition capitalize :: "string \<Rightarrow> string" where
  "capitalize str = map upper_char (take 1 str) @ toLowerCase (drop 1 str)"

record hoursEntry =
  dayOfWeek :: string
  opens :: string
  closes :: string

definition entriesOf :: "(nat \<times> string) list \<Rightarrow> hoursEntry list" where
  "entriesOf caps =
     (case (group caps 1, group caps 3, group caps 4) of
        (Some day1, Some opn, Some cls) \<Rightarrow>
          (let days = (case group caps 2 of
                         Some day2 \<Rightarrow> if day2 \<noteq> [] then getDayRange day1 day2 else [day1]
                       | None \<Rightarrow> [day1])
           in map (\<lambda>day. \<lparr>dayOfWeek = capitalize day, opens = convertTo24Hour opn,
                          closes = convertTo24Hour cls\<rparr>) days)
      | _ \<Rightarrow> [])"

text \<open>
  The loop \<^verbatim>\<open>while ((match = hoursPattern1.exec(hoursText)) !== null)\<close>. Every match
  consumes a character, so as many rounds as the text has characters, and one more,
  are enough; the result is \<open>None\<close> should they not be.
\<close>

primrec execLoop :: "nat \<Rightarrow> string \<Rightarrow> string \<Rightarrow> hoursEntry list option" where
  "execLoop 0 b rest = None"
| "execLoop (Suc n) b rest =
     (case re_search True hoursPattern1 b rest of
        None \<Rightarrow> Some []
      | Some (st, st') \<Rightarrow>
          (case execLoop n (fst st') (fst (snd st')) of
             None \<Rightarrow> None
           | Some es \<Rightarrow> Some (entriesOf (snd (snd st')) @ es)))"

definition scrapeOpeningHours :: "string \<Rightarrow> hoursEntry list option" where
  "scrapeOpeningHours hoursText = execLoop (Suc (length hoursText)) [] hoursText"

subsection \<open>Documents without a node that carries a rule\<close>




text \<open>The canonical shape of a price tier as the program tests it: a run of dollar signs.\<close>

definition dollars :: "string \<Rightarrow> bool" where
  "dollars s = (s \<noteq> [] \<and> (\<forall>c \<in> set s. c = CHR ''$''))"


section \<open>Lemmas\<close>

subsection \<open>The matcher on runs of one character\<close>

lemma star_step_char:
  "length r \<le> n \<Longrightarrow>
   set (star n (step_char P) (b, r, caps)) =
     {(rev (take k r) @ b, drop k r, caps) | k. k \<le> length (takeWhile P r)}"
proof (induction n arbitrary: b r)
  case 0
  then show ?case by simp
next
  case (Suc n)
  show ?case
  proof (cases r)
    case Nil
    then show ?thesis by (simp add: step_char_def)
  next
    case (Cons c cs)
    show ?thesis
    proof (cases "P c")
      case False
      then show ?thesis using Cons by (simp add: step_char_def)
    next
      case True
      have len: "length cs \<le> n" using Suc.prems Cons by simp
      have ih: "set (star n (step_char P) (c # b, cs, caps)) =
          {(rev (take k cs) @ c # b, drop k cs, caps) | k. k \<le> length (takeWhile P cs)}"
        by (rule Suc.IH [OF len])
      have step: "star (Suc n) (step_char P) (b, r, caps) =
          star n (step_char P) (c # b, cs, caps) @ [(b, r, caps)]"
        using True Cons by (simp add: step_char_def progress_def)
      have "{(rev (take k r) @ b, drop k r, caps) | k. k \<le> length (takeWhile P r)} =
          insert (b, r, caps)
            {(rev (take k cs) @ c # b, drop k cs, caps) | k. k \<le> length (takeWhile P cs)}"
        (is "?L = insert ?x ?R")
      proof (intro equalityI subsetI)
        fix x assume "x \<in> ?L"
        then obtain k where k: "k \<le> length (takeWhile P r)"
          and x: "x = (rev (take k r) @ b, drop k r, caps)" by blast
        show "x \<in> insert ?x ?R"
        proof (cases k)
          case 0
          then show ?thesis using x by simp
        next
          case (Suc j)
          then have "j \<le> length (takeWhile P cs)" using k True Cons by simp
          moreover have "x = (rev (take j cs) @ c # b, drop j cs, caps)"
            using x Suc Cons by simp
          ultimately show ?thesis by blast
        qed
      next
        fix x assume "x \<in> insert ?x ?R"
        then consider "x = ?x" | "x \<in> ?R" by blast
        then show "x \<in> ?L"
        proof cases
          case 1
          have "?x = (rev (take 0 r) @ b, drop 0 r, caps)" by simp
          then show ?thesis using 1 by blast
        next
          case 2
          then obtain j where j: "j \<le> length (takeWhile P cs)"
            and x: "x = (rev (take j cs) @ c # b, drop j cs, caps)" by blast
          have "Suc j \<le> length (takeWhile P r)" using j True Cons by simp
          moreover have "x = (rev (take (Suc j) r) @ b, drop (Suc j) r, caps)"
            using x Cons by simp
          ultimately show ?thesis by blast
        qed
      qed
      then show ?thesis using step ih by simp
    qed
  qed
qed

lemma rmatch_Lit_plain: "rmatch False (Lit a) = step_char (\<lambda>c. c = a)"
  by (rule ext) (simp add: canon_def)

lemma rmatch_Eol_last: "rmatch ci (Seq Eol Eps) = (\<lambda>st. if fst (snd st) = [] then [st] else [])"
  by (rule ext) simp

lemma rmatch_Plus_Lit:
  "set (rmatch False (Plus (Lit a)) (b, r, caps)) =
     {(rev (take k r) @ b, drop k r, caps) | k. 1 \<le> k \<and> k \<le> length (takeWhile (\<lambda>c. c = a) r)}"
proof (cases r)
  case Nil
  then show ?thesis by (simp add: Plus_def canon_def step_char_def)
next
  case (Cons c cs)
  show ?thesis
  proof (cases "c = a")
    case False
    then show ?thesis using Cons by (auto simp: Plus_def canon_def step_char_def)
  next
    case True
    have "rmatch False (Plus (Lit a)) (b, r, caps) =
        star (length cs) (step_char (\<lambda>c. c = a)) (c # b, cs, caps)"
      using True Cons by (simp add: Plus_def rmatch_Lit_plain step_char_def)
    then have "set (rmatch False (Plus (Lit a)) (b, r, caps)) =
        {(rev (take k cs) @ c # b, drop k cs, caps) | k. k \<le> length (takeWhile (\<lambda>c. c = a) cs)}"
      using star_step_char [of cs "length cs"] by simp
    also have "\<dots> = {(rev (take k r) @ b, drop k r, caps) | k.
        1 \<le> k \<and> k \<le> length (takeWhile (\<lambda>c. c = a) r)}" (is "?L = ?R")
    proof (intro equalityI subsetI)
      fix x assume "x \<in> ?L"
      then obtain j where j: "j \<le> length (takeWhile (\<lambda>c. c = a) cs)"
        and x: "x = (rev (take j cs) @ c # b, drop j cs, caps)" by blast
      have "1 \<le> Suc j \<and> Suc j \<le> length (takeWhile (\<lambda>c. c = a) r)"
        using j True Cons by simp
      moreover have "x = (rev (take (Suc j) r) @ b, drop (Suc j) r, caps)"
        using x Cons by simp
      ultimately show "x \<in> ?R" by blast
    next
      fix x assume "x \<in> ?R"
      then obtain k where k: "1 \<le> k" "k \<le> length (takeWhile (\<lambda>c. c = a) r)"
        and x: "x = (rev (take k r) @ b, drop k r, caps)" by blast
      from k(1) obtain j where kj: "k = Suc j" by (cases k) auto
      have "j \<le> length (takeWhile (\<lambda>c. c = a) cs)" using k(2) kj True Cons by simp
      moreover have "x = (rev (take j cs) @ c # b, drop j cs, caps)"
        using x kj Cons by simp
      ultimately show "x \<in> ?L" by blast
    qed
    finally show ?thesis .
  qed
qed

lemma takeWhile_all: "k \<le> length (takeWhile P r) \<Longrightarrow> \<forall>c \<in> set (take k r). P c"
proof (induction r arbitrary: k)
  case Nil
  then show ?case by simp
next
  case (Cons c cs)
  then show ?case by (cases k) (auto split: if_splits)
qed

lemma re_search_Bol: "b \<noteq> [] \<Longrightarrow> re_search ci (Seq Bol r) b s = None"
  by (induction s arbitrary: b) simp_all

lemma dollarsOnly_iff: "re_test False dollarsOnly s \<longleftrightarrow> dollars s"
proof -
  have m: "rmatch False dollarsOnly ([], s, []) =
      concat (map (\<lambda>st. if fst (snd st) = [] then [st] else [])
        (rmatch False (Plus (Lit CHR ''$'')) ([], s, [])))"
    by (simp add: dollarsOnly_def seqs_def rmatch_Eol_last del: rmatch.simps(9))
       (simp add: rmatch_Eol_last)
  have nonempty: "rmatch False dollarsOnly ([], s, []) \<noteq> [] \<longleftrightarrow>
      (\<exists>st \<in> set (rmatch False (Plus (Lit CHR ''$'')) ([], s, [])). fst (snd st) = [])"
    unfolding m by (auto simp: concat_eq_Nil_conv)
  have ex: "(\<exists>st \<in> set (rmatch False (Plus (Lit CHR ''$'')) ([], s, [])). fst (snd st) = [])
      \<longleftrightarrow> dollars s"
  proof
    assume "\<exists>st \<in> set (rmatch False (Plus (Lit CHR ''$'')) ([], s, [])). fst (snd st) = []"
    then obtain k where k: "1 \<le> k" "k \<le> length (takeWhile (\<lambda>c. c = CHR ''$'') s)"
      and d: "drop k s = []"
      unfolding rmatch_Plus_Lit by auto
    from d have "take k s = s" by simp
    then have "\<forall>c \<in> set s. c = CHR ''$''"
      using takeWhile_all [OF k(2)] by simp
    moreover have "s \<noteq> []" using k by auto
    ultimately show "dollars s" by (simp add: dollars_def)
  next
    assume "dollars s"
    then have a: "takeWhile (\<lambda>c. c = CHR ''$'') s = s" and ne: "s \<noteq> []"
      by (auto simp: dollars_def)
    have "1 \<le> length s \<and> length s \<le> length (takeWhile (\<lambda>c. c = CHR ''$'') s)"
      using a ne by (cases s) auto
    then have "(rev (take (length s) s) @ [], drop (length s) s, [])
        \<in> set (rmatch False (Plus (Lit CHR ''$'')) ([], s, []))"
      unfolding rmatch_Plus_Lit by blast
    then show "\<exists>st \<in> set (rmatch False (Plus (Lit CHR ''$'')) ([], s, [])). fst (snd st) = []"
      by force
  qed
  have srch: "re_search False dollarsOnly [] s = None \<longleftrightarrow> rmatch False dollarsOnly ([], s, []) = []"
  proof (cases s)
    case Nil
    then show ?thesis by (simp split: list.splits)
  next
    case (Cons c cs)
    have "re_search False dollarsOnly [c] cs = None"
      unfolding dollarsOnly_def seqs_def by (simp add: re_search_Bol)
    then show ?thesis using Cons by (simp split: list.splits)
  qed
  have "re_test False dollarsOnly s \<longleftrightarrow> re_search False dollarsOnly [] s \<noteq> None"
    by (simp add: re_test_def re_exec_def split: option.splits)
  also have "\<dots> \<longleftrightarrow> rmatch False dollarsOnly ([], s, []) \<noteq> []"
    using srch by simp
  also have "\<dots> \<longleftrightarrow>
      (\<exists>st \<in> set (rmatch False (Plus (Lit CHR ''$'')) ([], s, [])). fst (snd st) = [])"
    by (rule nonempty)
  also have "\<dots> \<longleftrightarrow> dollars s"
    by (rule ex)
  finally show ?thesis .
qed

lemma re_search_first:
  "re_search ci r b s = Some (st, st') \<Longrightarrow>
   \<exists>p q. s = p @ q \<and> st = (rev p @ b, q, []) \<and> st' \<in> set (rmatch ci r st)"
proof (induction s arbitrary: b)
  case Nil
  then show ?case by (auto split: list.splits)
next
  case (Cons c cs)
  show ?case
  proof (cases "rmatch ci r (b, c # cs, [])")
    case Nil
    with Cons.prems have "re_search ci r (c # b) cs = Some (st, st')" by simp
    from Cons.IH [OF this] obtain p q where
      "cs = p @ q" "st = (rev p @ c # b, q, [])" "st' \<in> set (rmatch ci r st)" by blast
    then have "c # cs = (c # p) @ q \<and> st = (rev (c # p) @ b, q, []) \<and> st' \<in> set (rmatch ci r st)"
      by simp
    then show ?thesis by blast
  next
    case (Cons x xs)
    with Cons.prems have "st = (b, c # cs, [])" "st' = x" by simp_all
    then have "c # cs = [] @ (c # cs) \<and> st = (rev [] @ b, c # cs, []) \<and> st' \<in> set (rmatch ci r st)"
      using Cons by simp
    then show ?thesis by blast
  qed
qed

lemma dollarRun_match:
  assumes "re_exec False dollarRun s = Some (m, caps)"
  shows "dollars m"
proof -
  from assms obtain st st' where sr: "re_search False dollarRun [] s = Some (st, st')"
    and m: "m = matched_text st st'"
    by (auto simp: re_exec_def split: option.splits)
  from re_search_first [OF sr] obtain p q where
    st: "st = (rev p @ [], q, [])" and in_set: "st' \<in> set (rmatch False dollarRun st)" by blast
  from in_set obtain k where k: "1 \<le> k" "k \<le> length (takeWhile (\<lambda>c. c = CHR ''$'') q)"
    and st': "st' = (rev (take k q) @ rev p @ [], drop k q, [])"
    unfolding st dollarRun_def rmatch_Plus_Lit by auto
  have kq: "k \<le> length q"
    using k(2) length_takeWhile_le [of "\<lambda>c. c = CHR ''$''" q] by linarith
  have "m = take k q"
    using kq by (simp add: m matched_text_def st st')
  moreover have "take k q \<noteq> []" using k(1) kq by (cases q) auto
  ultimately show ?thesis
    using takeWhile_all [OF k(2)] by (simp add: dollars_def)
qed




subsection \<open>Steps of the form validator\<close>

lemma map_of_put: "map_of (put k v obj) k' = (if k' = k then Some v else map_of obj k')"
  by (simp add: put_def update_conv')


lemma get_put: "get (put k v obj) k' = (if k' = k then v else get obj k')"
  by (simp add: get_def map_of_put)

lemma in_msgIf [simp]: "m \<in> set (msgIf bad msg) \<longleftrightarrow> bad \<and> m = msg"
  by (auto simp: msgIf_def)



lemma fst_phoneStep [simp]: "fst (phoneStep f st) = fst st"
  by (cases st) (simp add: phoneStep_def)

lemma fst_priceStep [simp]: "fst (priceStep f st) = fst st"
  by (cases st) (simp add: priceStep_def)







lemma set_need: "set (need f k msg errs) \<subseteq> insert msg (set errs)"
  by (auto simp: need_def)











subsection \<open>The cleaner on documents without a rule\<close>

lemma andThen_None [simp]: "andThen (Inr None) f = Inr None"
  by (simp add: andThen_def)

lemma andThen_Some [simp]: "andThen (Inr (Some obj)) f = f obj"
  by (simp add: andThen_def)

lemma typeIs_unique: "typeIs obj t \<Longrightarrow> typeIs obj t' \<longleftrightarrow> t' = t"
  by (auto simp: typeIs_def)








section \<open>The price tier classifier\<close>

text \<open>
  With an empty city the classifier returns the middle tier at its first line, before
  it looks at the text: here the description contains the word luxury, and the tier is
  not the highest one.
\<close>

theorem detectPriceRange_empty_city_counterexample:
  "str_includes (textualContent (Str ''Grand Spa'') (Str ''A luxury day spa'')) ''luxury''
   \<and> detectPriceRange (Str '''') (Str ''LocalBusiness'') (Str ''Grand Spa'') (Str ''A luxury day spa'')
       = Inr (Str ''$$'')
   \<and> detectPriceRange (Str '''') (Str ''LocalBusiness'') (Str ''Grand Spa'') (Str ''A luxury day spa'')
       \<noteq> Inr (Str ''$$$$'')"
  by code_simp

text \<open>
  Claim C1, amended. For every city that is not the empty string, and every business
  category, name and description, the classifier decides in this order. First the words
  in the lower-cased name and description: luxury, premium, exclusive or high-end give
  four dollar signs; else upscale, boutique or sophisticated give three; else
  affordable, budget, discount or cheap give one; else value, reasonable or moderate
  give two. With none of these words: what the city table holds for the lower-cased and
  trimmed city, when that is truthy; else what the category table holds for the
  category, when that is truthy; else two dollar signs. So the text wins over the city
  table: New York with a description containing affordable yields one dollar sign.
\<close>

theorem detectPriceRange_priority:
  assumes "city \<noteq> []"
  shows "(includes_any (textualContent name desc) [''luxury'', ''premium'', ''exclusive'', ''high-end'']
           \<longrightarrow> detectPriceRange (Str city) btype name desc = Inr (Str ''$$$$''))
    \<and> (\<not> includes_any (textualContent name desc) [''luxury'', ''premium'', ''exclusive'', ''high-end'']
        \<and> includes_any (textualContent name desc) [''upscale'', ''boutique'', ''sophisticated'']
           \<longrightarrow> detectPriceRange (Str city) btype name desc = Inr (Str ''$$$''))
    \<and> (\<not> includes_any (textualContent name desc)
            [''luxury'', ''premium'', ''exclusive'', ''high-end'', ''upscale'', ''boutique'',
             ''sophisticated'']
        \<and> includes_any (textualContent name desc) [''affordable'', ''budget'', ''discount'', ''cheap'']
           \<longrightarrow> detectPriceRange (Str city) btype name desc = Inr (Str ''$''))
    \<and> (\<not> includes_any (textualContent name desc)
            [''luxury'', ''premium'', ''exclusive'', ''high-end'', ''upscale'', ''boutique'',
             ''sophisticated'', ''affordable'', ''budget'', ''discount'', ''cheap'']
        \<and> includes_any (textualContent name desc) [''value'', ''reasonable'', ''moderate'']
           \<longrightarrow> detectPriceRange (Str city) btype name desc = Inr (Str ''$$''))
    \<and> (\<not> includes_any (textualContent name desc)
            [''luxury'', ''premium'', ''exclusive'', ''high-end'', ''upscale'', ''boutique'',
             ''sophisticated'', ''affordable'', ''budget'', ''discount'', ''cheap'',
             ''value'', ''reasonable'', ''moderate'']
           \<longrightarrow> detectPriceRange (Str city) btype name desc =
               Inr (if truthy (table_get cityPriceMapping (trim (toLowerCase city)))
                    then table_get cityPriceMapping (trim (toLowerCase city))
                    else if truthy (table_get businessTypePriceMapping (to_string btype))
                    then table_get businessTypePriceMapping (to_string btype)
                    else Str ''$$''))"
  using assms
  by (simp add: detectPriceRange_def textualPriceIndicator_def includes_any_def Let_def)

theorem detectPriceRange_priority_witness:
  "detectPriceRange (Str ''New York'') (Str ''Restaurant'') (Str ''Joe's'') (Str ''Affordable eats'')
     = Inr (Str ''$'')
   \<and> detectPriceRange (Str ''New York'') (Str ''HVACBusiness'') (Str ''Luxury Air'') Undefined
     = Inr (Str ''$$$$'')
   \<and> detectPriceRange (Str ''Detroit'') (Str ''LegalService'') (Str ''Smith'') (Str ''upscale law'')
     = Inr (Str ''$$$'')
   \<and> detectPriceRange (Str ''Detroit'') (Str ''LegalService'') (Str ''Smith'') (Str ''good value'')
     = Inr (Str ''$$'')
   \<and> detectPriceRange (Str '' New York '') (Str ''AutomotiveBusiness'') (Str ''Joe's'') Undefined
     = Inr (Str ''$$$$'')
   \<and> detectPriceRange (Str ''Springfield'') (Str ''AutomotiveBusiness'') (Str ''Joe's'') Undefined
     = Inr (Str ''$'')
   \<and> detectPriceRange (Str ''Springfield'') (Str ''Bakery'') (Str ''Joe's'') Undefined
     = Inr (Str ''$$'')"
  using detectPriceRange_priority [of "''New York''" "Str ''Joe's''" "Str ''Affordable eats''" "Str ''Restaurant''"]
    detectPriceRange_priority [of "''New York''" "Str ''Luxury Air''" Undefined "Str ''HVACBusiness''"]
    detectPriceRange_priority [of "''Detroit''" "Str ''Smith''" "Str ''upscale law''" "Str ''LegalService''"]
    detectPriceRange_priority [of "''Detroit''" "Str ''Smith''" "Str ''good value''" "Str ''LegalService''"]
    detectPriceRange_priority [of "'' New York ''" "Str ''Joe's''" Undefined "Str ''AutomotiveBusiness''"]
    detectPriceRange_priority [of "''Springfield''" "Str ''Joe's''" Undefined "Str ''AutomotiveBusiness''"]
    detectPriceRange_priority [of "''Springfield''" "Str ''Joe's''" Undefined "Str ''Bakery''"]
  by (simp add: includes_any_def textualContent_def js_or_def toLowerCase_def lower_char_def
      is_upper_def trim_def is_space_def table_get_def cityPriceMapping_def
      businessTypePriceMapping_def proto_get_def proto_methods_def)

section \<open>One pass and two passes of the cleaner\<close>




section \<open>Nodes the cleaner keeps\<close>

text \<open>
  Claim C3 says that a business node without a name is removed for every business type,
  HVACBusiness among them. The list \<open>businessTypes\<close> of the cleaner has no HVACBusiness
  (the list of \<^verbatim>\<open>validateSchema\<close>, line 661, has it): a nameless HVACBusiness node with a
  valid telephone and address passes the cleaner unchanged, where the same node typed
  LocalBusiness is removed.
\<close>

theorem cleanObject_keeps_nameless_HVACBusiness:
  "cleanObject sampleParser
     (Obj [(''@type'', Str ''HVACBusiness''), (''telephone'', Str ''555-123-4567''),
           (''address'', Obj [(''@type'', Str ''PostalAddress''),
              (''streetAddress'', Str ''1 Main St''), (''addressLocality'', Str ''Austin''),
              (''addressRegion'', Str ''TX''), (''postalCode'', Str ''78701''),
              (''addressCountry'', Str ''US'')])])
   = Inr (Obj [(''@type'', Str ''HVACBusiness''), (''telephone'', Str ''555-123-4567''),
           (''address'', Obj [(''@type'', Str ''PostalAddress''),
              (''streetAddress'', Str ''1 Main St''), (''addressLocality'', Str ''Austin''),
              (''addressRegion'', Str ''TX''), (''postalCode'', Str ''78701''),
              (''addressCountry'', Str ''US'')])])
   \<and> cleanObject sampleParser
     (Obj [(''@type'', Str ''LocalBusiness''), (''telephone'', Str ''555-123-4567''),
           (''address'', Obj [(''@type'', Str ''PostalAddress''),
              (''streetAddress'', Str ''1 Main St''), (''addressLocality'', Str ''Austin''),
              (''addressRegion'', Str ''TX''), (''postalCode'', Str ''78701''),
              (''addressCountry'', Str ''US'')])])
   = Inr Null"
  by code_simp

text \<open>
  Claim C4 says that every rating node of the output has a value in [1,5] and a count of
  at least 1. The cleaner compares without asking whether the number is NaN (the two
  validators, lines 701 and 926, do ask): a rating value that is no number passes every
  comparison and the node is kept, with the value \<^verbatim>\<open>NaN\<close>.
\<close>

theorem cleanObject_keeps_NaN_rating:
  "cleanObject sampleParser
     (Obj [(''@type'', Str ''AggregateRating''), (''ratingValue'', Str ''abc''),
           (''reviewCount'', Str ''10'')])
   = Inr (Obj [(''@type'', Str ''AggregateRating''), (''ratingValue'', Str ''NaN''),
               (''reviewCount'', Str ''10''), (''bestRating'', Str ''5''),
               (''worstRating'', Str ''1'')])"
  by code_simp


section \<open>Postal codes\<close>

text \<open>
  Claim C5 says that \<^verbatim>\<open>isValidPostalCode\<close> matches the whole string and is false for a
  string that only contains a postal code. The function searches: \<^verbatim>\<open>pattern.test\<close> with
  a pattern that has no anchors finds the code anywhere between two word boundaries.
\<close>

theorem isValidPostalCode_accepts_embedded_code:
  "isValidPostalCode (Str ''Suite 12345 A'') (Str ''US'') = Inr True"
  by code_simp


section \<open>Properties of the phone formatter\<close>

lemma slice_take_drop: "slice a b s = take (b - a) (drop a s)"
  by (simp add: slice_def)

text \<open>
  Claim C6. \<^verbatim>\<open>formatPhoneNumber\<close> strips the non-digits and then decides by the digits
  \<open>d\<close> alone, in this order: ten digits give \<^verbatim>\<open>+1-XXX-XXX-XXXX\<close>; eleven digits that
  begin with 1 give the same shape from the last ten; the numbers left over that have
  the United Kingdom look (ten or eleven digits beginning with 44 or 0, which after the
  first two rules means eleven digits) get the \<^verbatim>\<open>+44-\<close> grouping, the leading 0
  replaced by 44; any other input with at least seven digits comes back trimmed; an
  input with fewer than seven digits comes back as it was.
\<close>

theorem formatPhoneNumber_cascade:
  "(length (digitsOf p) = 10 \<longrightarrow>
      formatPhoneNumber p =
        ''+1-'' @ take 3 (digitsOf p) @ ''-'' @ take 3 (drop 3 (digitsOf p)) @ ''-''
          @ drop 6 (digitsOf p)
      \<and> length (drop 6 (digitsOf p)) = 4)
   \<and> (length (digitsOf p) = 11 \<and> prefix ''1'' (digitsOf p) \<longrightarrow>
      formatPhoneNumber p =
        ''+1-'' @ take 3 (drop 1 (digitsOf p)) @ ''-'' @ take 3 (drop 4 (digitsOf p)) @ ''-''
          @ drop 7 (digitsOf p)
      \<and> length (drop 7 (digitsOf p)) = 4)
   \<and> (length (digitsOf p) = 11 \<and> prefix ''44'' (digitsOf p) \<longrightarrow>
      formatPhoneNumber p =
        ''+44-'' @ take 3 (drop 2 (digitsOf p)) @ ''-'' @ take 3 (drop 5 (digitsOf p)) @ ''-''
          @ drop 8 (digitsOf p))
   \<and> (length (digitsOf p) = 11 \<and> prefix ''0'' (digitsOf p) \<longrightarrow>
      formatPhoneNumber p =
        ''+44-'' @ take 3 (drop 1 (digitsOf p)) @ ''-'' @ take 3 (drop 4 (digitsOf p)) @ ''-''
          @ drop 7 (digitsOf p))
   \<and> (7 \<le> length (digitsOf p) \<and> length (digitsOf p) \<noteq> 10
        \<and> \<not> (length (digitsOf p) = 11
              \<and> (prefix ''1'' (digitsOf p) \<or> prefix ''44'' (digitsOf p)
                  \<or> prefix ''0'' (digitsOf p))) \<longrightarrow>
      formatPhoneNumber p = trim p)
   \<and> (length (digitsOf p) < 7 \<longrightarrow> formatPhoneNumber p = p)"
proof -
  let ?d = "digitsOf p"
  have dn: "digitsOf [] = []"
    by (simp add: digitsOf_def)
  have ne: "0 < length ?d \<Longrightarrow> p \<noteq> []"
    using dn by (cases p) simp_all
  have c10: "length ?d = 10 \<Longrightarrow> formatPhoneNumber p =
      ''+1-'' @ take 3 ?d @ ''-'' @ take 3 (drop 3 ?d) @ ''-'' @ drop 6 ?d"
    by (auto simp: formatPhoneNumber_def Let_def slice_take_drop dn)
  have c11: "length ?d = 11 \<Longrightarrow> prefix ''1'' ?d \<Longrightarrow> formatPhoneNumber p =
      ''+1-'' @ take 3 (drop 1 ?d) @ ''-'' @ take 3 (drop 4 ?d) @ ''-'' @ drop 7 ?d"
  proof -
    assume l: "length ?d = 11" and q: "prefix ''1'' ?d"
    from q obtain r where r: "?d = CHR ''1'' # r"
      by (auto simp: prefix_def)
    from l dn have "p \<noteq> []" by auto
    then show ?thesis
      using l q r by (simp add: formatPhoneNumber_def Let_def slice_take_drop)
  qed
  have not1: "prefix ''44'' ?d \<or> prefix ''0'' ?d \<Longrightarrow> \<not> prefix ''1'' ?d"
    by (auto simp: prefix_def)
  have u44: "length ?d = 11 \<Longrightarrow> prefix ''44'' ?d \<Longrightarrow> formatPhoneNumber p =
      ''+44-'' @ take 3 (drop 2 ?d) @ ''-'' @ take 3 (drop 5 ?d) @ ''-'' @ drop 8 ?d"
  proof -
    assume l: "length ?d = 11" and q: "prefix ''44'' ?d"
    from q obtain r where r: "?d = CHR ''4'' # CHR ''4'' # r"
      by (auto simp: prefix_def)
    from l dn have "p \<noteq> []" by auto
    then show ?thesis
      using l q r not1 by (simp add: formatPhoneNumber_def Let_def slice_take_drop)
  qed
  have u0: "length ?d = 11 \<Longrightarrow> prefix ''0'' ?d \<Longrightarrow> formatPhoneNumber p =
      ''+44-'' @ take 3 (drop 1 ?d) @ ''-'' @ take 3 (drop 4 ?d) @ ''-'' @ drop 7 ?d"
  proof -
    assume l: "length ?d = 11" and q: "prefix ''0'' ?d"
    from q obtain r where r: "?d = CHR ''0'' # r"
      by (auto simp: prefix_def)
    from l dn have "p \<noteq> []" by auto
    then show ?thesis
      using l q r by (simp add: formatPhoneNumber_def Let_def slice_take_drop)
  qed
  have other: "7 \<le> length ?d \<Longrightarrow> length ?d \<noteq> 10 \<Longrightarrow>
      \<not> (length ?d = 11 \<and> (prefix ''1'' ?d \<or> prefix ''44'' ?d \<or> prefix ''0'' ?d)) \<Longrightarrow>
      formatPhoneNumber p = trim p"
  proof -
    assume l: "7 \<le> length ?d" and n10: "length ?d \<noteq> 10"
      and n11: "\<not> (length ?d = 11 \<and> (prefix ''1'' ?d \<or> prefix ''44'' ?d \<or> prefix ''0'' ?d))"
    from l dn have "p \<noteq> []" by auto
    then show ?thesis
      using l n10 n11 by (auto simp: formatPhoneNumber_def Let_def)
  qed
  have short: "length ?d < 7 \<Longrightarrow> formatPhoneNumber p = p"
    by (auto simp: formatPhoneNumber_def Let_def dn)
  show ?thesis
    using c10 c11 u44 u0 other short by simp
qed

theorem formatPhoneNumber_cascade_witness:
  "formatPhoneNumber ''(555) 123-4567'' = ''+1-555-123-4567''
   \<and> formatPhoneNumber ''1 (555) 123-4567'' = ''+1-555-123-4567''
   \<and> formatPhoneNumber ''44 1234 56789'' = ''+44-123-456-789''
   \<and> formatPhoneNumber ''020 1234 5678'' = ''+44-201-234-5678''
   \<and> formatPhoneNumber '' 0201 234-567 89 '' = ''0201 234-567 89''
   \<and> formatPhoneNumber ''12-34'' = ''12-34''"
  using formatPhoneNumber_cascade [of "''(555) 123-4567''"]
    formatPhoneNumber_cascade [of "''1 (555) 123-4567''"]
    formatPhoneNumber_cascade [of "''44 1234 56789''"]
    formatPhoneNumber_cascade [of "''020 1234 5678''"]
    formatPhoneNumber_cascade [of "'' 0201 234-567 89 ''"]
    formatPhoneNumber_cascade [of "''12-34''"]
  by (simp add: digitsOf_def is_digit_def trim_def is_space_def)


section \<open>Invalid fields of the form\<close>

text \<open>
  The validator throws exactly on the forms of \<open>postalCodeThrows\<close>: a business form with
  a postal code and a country such as constructor, for which the pattern table yields an
  inherited member that has no test method.
\<close>

lemma validateFormData_throws:
  assumes "postalCodeThrows f"
  shows "validateFormData U f ai = Inl TypeError"
  using assms
  by (simp add: validateFormData_def validateHead_def postalStep_def postalCodeThrows_def
      bindE_def split: prod.splits)

lemma validateFormData_throws_example:
  "validateFormData sampleParser
     [(''contentType'', ''LocalBusiness''), (''name'', ''Acme''), (''description'', ''Repairs''),
      (''postalCode'', ''12345''), (''addressCountry'', ''constructor'')] True = Inl TypeError"
  by code_simp




section \<open>Opening hours\<close>

text \<open>
  Claim C8 says that the text \<^verbatim>\<open>Monday-Friday: 9:00 AM-5:00 PM\<close> parses into five
  nodes, Monday to Friday, from 09:00 to 17:00. \<^verbatim>\<open>formatBusinessHours\<close> returns no node
  for it: both of its shapes match the line, and both reject the times, which
  \<^verbatim>\<open>isValidTimeFormat\<close> accepts in 24-hour form only. The extractor of scraper.ts, with
  its own pattern and \<^verbatim>\<open>convertTo24Hour\<close>, returns the five entries of the claim.
\<close>

theorem formatBusinessHours_drops_12_hour_range:
  "formatBusinessHours ''Monday-Friday: 9:00 AM-5:00 PM'' = Some []
   \<and> scrapeOpeningHours ''Monday-Friday: 9:00 AM-5:00 PM'' = Some
       [\<lparr>dayOfWeek = ''Monday'', opens = ''09:00'', closes = ''17:00''\<rparr>,
        \<lparr>dayOfWeek = ''Tuesday'', opens = ''09:00'', closes = ''17:00''\<rparr>,
        \<lparr>dayOfWeek = ''Wednesday'', opens = ''09:00'', closes = ''17:00''\<rparr>,
        \<lparr>dayOfWeek = ''Thursday'', opens = ''09:00'', closes = ''17:00''\<rparr>,
        \<lparr>dayOfWeek = ''Friday'', opens = ''09:00'', closes = ''17:00''\<rparr>]"
  by code_simp


section \<open>The normalised price tier\<close>

text \<open>
  The normaliser keeps a trimmed input that consists of dollar signs only, whatever its
  length: five dollar signs come back as five, which is none of the four tiers.
\<close>

theorem validatePriceRange_five_dollars_counterexample:
  "validatePriceRange ''$$$$$'' = ''$$$$$''
   \<and> validatePriceRange ''$$$$$'' \<notin> {''$'', ''$$'', ''$$$'', ''$$$$''}"
  by code_simp

text \<open>
  Claim C9, amended. For every non-empty input the normalised price tier is a non-empty
  run of dollar signs. A trimmed input that is itself such a run is kept as it is, with
  no bound on its length. An input that is not such a run, has none of the words for an
  expensive place and contains moderate, mid-range or reasonable is mapped to two dollar
  signs.
\<close>

theorem validatePriceRange_shape:
  assumes "p \<noteq> []"
  shows "dollars (validatePriceRange p)
     \<and> (dollars (trim p) \<longrightarrow> validatePriceRange p = trim p)
     \<and> (\<not> dollars (trim p)
        \<and> \<not> includes_any (toLowerCase (trim p))
              [''luxury'', ''exclusive'', ''premium'', ''very expensive'', ''expensive'',
               ''upscale'', ''high-end'']
        \<and> includes_any (toLowerCase (trim p)) [''moderate'', ''mid-range'', ''reasonable'']
        \<longrightarrow> validatePriceRange p = ''$$'')"
proof -
  have d: "dollars ''$''" "dollars ''$$''" "dollars ''$$$''" "dollars ''$$$$''"
    by (simp_all add: dollars_def)
  have run: "\<And>m caps. re_exec False dollarRun (trim p) = Some (m, caps) \<Longrightarrow> dollars m"
    by (rule dollarRun_match)
  show ?thesis
    using assms d run
    by (auto simp: validatePriceRange_def Let_def dollarsOnly_iff includes_any_def
        split: option.splits)
qed

theorem validatePriceRange_shape_witness:
  "dollars (validatePriceRange ''Moderate prices'')
   \<and> validatePriceRange '' $$$ '' = ''$$$''
   \<and> validatePriceRange ''Moderate prices'' = ''$$''"
proof -
  have a: "''Moderate prices'' \<noteq> []" and b: "'' $$$ '' \<noteq> []"
    by simp_all
  have t: "trim '' $$$ '' = ''$$$''"
    by code_simp
  have dt: "dollars (trim '' $$$ '')"
    unfolding t by (simp add: dollars_def)
  have m1: "\<not> dollars (trim ''Moderate prices'')"
    by code_simp
  have m2: "\<not> includes_any (toLowerCase (trim ''Moderate prices''))
              [''luxury'', ''exclusive'', ''premium'', ''very expensive'', ''expensive'',
               ''upscale'', ''high-end'']"
    by code_simp
  have m3: "includes_any (toLowerCase (trim ''Moderate prices''))
              [''moderate'', ''mid-range'', ''reasonable'']"
    by code_simp
  have "validatePriceRange '' $$$ '' = trim '' $$$ ''"
    using validatePriceRange_shape [OF b] dt by blast
  then have c2: "validatePriceRange '' $$$ '' = ''$$$''"
    unfolding t .
  have c1: "dollars (validatePriceRange ''Moderate prices'')"
    using validatePriceRange_shape [OF a] by blast
  have c3: "validatePriceRange ''Moderate prices'' = ''$$''"
    using validatePriceRange_shape [OF a] m1 m2 m3 by blast
  show ?thesis
    using c1 c2 c3 by blast
qed

section \<open>Coordinates on the equator and the prime meridian\<close>

text \<open>
  Claim C10. The cleaner removes a GeoCoordinates node whose latitude or longitude is the
  number 0: the presence check of the rule asks for truthiness, and the number 0 is
  falsy. The node becomes null, and a parent object or array drops it. Zero written as
  the non-empty string "0" is truthy and lies in the valid ranges: such a node passes
  the rule for coordinates unchanged.
\<close>

theorem geo_zero_number_removed:
  assumes "typeIs obj ''GeoCoordinates''"
  shows "(get obj ''latitude'' = Num (Dec 0 e) \<or> get obj ''longitude'' = Num (Dec 0 e) \<longrightarrow>
           cleanObject U (Obj obj) = Inr Null
           \<and> cleanProps U [(k, Obj obj)] = Inr []
           \<and> cleanObject U (Arr [Obj obj]) = Inr (Arr []))
       \<and> (get obj ''latitude'' = Str ''0'' \<and> get obj ''longitude'' = Str ''0'' \<longrightarrow>
           geoRule obj = Inr (Some obj))"
proof -
  have ty: "truthy (get obj ''@type'')"
    using assms by (simp add: typeIs_def)
  have q: "questionRule obj = Inr (Some obj)"
    using assms by (simp add: questionRule_def typeIs_def)
  have h: "openingHoursRule obj = Inr (Some obj)"
    using assms by (simp add: openingHoursRule_def typeIs_def)
  have removed: "cleanObject U (Obj obj) = Inr Null"
    if z: "get obj ''latitude'' = Num (Dec 0 e) \<or> get obj ''longitude'' = Num (Dec 0 e)"
  proof -
    have "geoRule obj = Inr None"
      using assms z by (auto simp: geoRule_def num_truthy_def)
    then have "node_rules U obj = Inr None"
      using ty q h by (simp add: node_rules_def)
    then show ?thesis by simp
  qed
  have kept: "geoRule obj = Inr (Some obj)"
    if s: "get obj ''latitude'' = Str ''0'' \<and> get obj ''longitude'' = Str ''0''"
  proof -
    have p: "parseFloat ''0'' = Dec 0 0"
      by code_simp
    have c: "\<not> num_lt (Dec 0 0) (num_of_int (- 90))" "\<not> num_gt (Dec 0 0) (num_of_int 90)"
      "\<not> num_lt (Dec 0 0) (num_of_int (- 180))" "\<not> num_gt (Dec 0 0) (num_of_int 180)"
      by (simp_all add: num_lt_def num_gt_def num_of_int_def)
    show ?thesis
      using assms s p c by (simp add: geoRule_def Let_def)
  qed
  show ?thesis
    using removed kept by (auto simp: keep_prop_def keep_item_def)
qed

theorem geo_zero_number_removed_witness:
  "cleanObject sampleParser
     (Obj [(''@type'', Str ''GeoCoordinates''), (''latitude'', Num (Dec 0 0)),
           (''longitude'', Num (Dec (- 15) (- 1)))]) = Inr Null
   \<and> cleanProps sampleParser
       [(''geo'', Obj [(''@type'', Str ''GeoCoordinates''), (''latitude'', Num (Dec 0 0)),
                       (''longitude'', Num (Dec (- 15) (- 1)))])] = Inr []
   \<and> geoRule [(''@type'', Str ''GeoCoordinates''), (''latitude'', Str ''0''),
               (''longitude'', Str ''0'')]
      = Inr (Some [(''@type'', Str ''GeoCoordinates''), (''latitude'', Str ''0''),
                   (''longitude'', Str ''0'')])"
proof -
  let ?a = "[(''@type'', Str ''GeoCoordinates''), (''latitude'', Num (Dec 0 0)),
             (''longitude'', Num (Dec (- 15) (- 1)))]"
  let ?b = "[(''@type'', Str ''GeoCoordinates''), (''latitude'', Str ''0''),
             (''longitude'', Str ''0'')]"
  have ta: "typeIs ?a ''GeoCoordinates''" and tb: "typeIs ?b ''GeoCoordinates''"
    by (simp_all add: typeIs_def get_def)
  have za: "get ?a ''latitude'' = Num (Dec 0 0) \<or> get ?a ''longitude'' = Num (Dec 0 0)"
    by (simp add: get_def)
  have zb: "get ?b ''latitude'' = Str ''0'' \<and> get ?b ''longitude'' = Str ''0''"
    by (simp add: get_def)
  show ?thesis
    using geo_zero_number_removed [OF ta, of 0 sampleParser "''geo''"] za
      geo_zero_number_removed [OF tb, of 0 sampleParser "''geo''"] zb
    by blast
qed

end
